theory Spec2Isabelle
  imports Main "HOL-Library.Char_ord" "HOL-Library.List_Lexorder" "HOL-Library.Multiset"
    "HOL-Library.AList"
begin

section \<open>Strings and formatting helpers\<close>

text \<open>
  Go strings are byte sequences; they are modelled as \<open>string\<close> (a list of 8-bit
  characters).  Go compares strings bytewise and lexicographically, which is the order
  that \<open>Char_ord\<close> and \<open>List_Lexorder\<close> put on \<open>string\<close>.
\<close>

definition nl :: string where
  "nl = [CHR 0x0A]"

definition dq :: string where
  "dq = [CHR 0x22]"

definition spaces :: "nat \<Rightarrow> string" where
  "spaces n = replicate n (CHR '' '')"

text \<open>\<open>strings.Join\<close>.\<close>

fun join :: "string \<Rightarrow> string list \<Rightarrow> string" where
  "join sep [] = []"
| "join sep [x] = x"
| "join sep (x # y # ys) = x @ sep @ join sep (y # ys)"

text \<open>\<open>strings.Split(s, "\n")\<close>: the pieces between the separators, never an empty list.\<close>

fun split_on :: "char \<Rightarrow> string \<Rightarrow> string list" where
  "split_on c [] = [[]]"
| "split_on c (x # xs) =
     (if x = c then [] # split_on c xs
      else (case split_on c xs of [] \<Rightarrow> [[x]] | y # ys \<Rightarrow> (x # y) # ys))"

definition hexdigit :: "nat \<Rightarrow> char" where
  "hexdigit n = (if n < 10 then char_of (48 + n) else char_of (87 + n))"

text \<open>
  \<open>%q\<close> of \<open>fmt\<close> (\<open>strconv.Quote\<close>) on bytes: the double quote and the backslash are
  escaped, printable ASCII is kept, the control characters get their Go escapes.
  Bytes from \<open>0x80\<close> on are kept as they are, which is what Go does for the UTF-8
  encoding of a printable rune (Go escapes invalid UTF-8 and unprintable runes; that
  part of the Unicode tables is not modelled).
\<close>

definition quote_char :: "char \<Rightarrow> string" where
  "quote_char c =
     (if c = CHR 0x22 then [CHR 0x5C, CHR 0x22]
      else if c = CHR 0x5C then [CHR 0x5C, CHR 0x5C]
      else if c = CHR 0x07 then [CHR 0x5C, CHR ''a'']
      else if c = CHR 0x08 then [CHR 0x5C, CHR ''b'']
      else if c = CHR 0x0C then [CHR 0x5C, CHR ''f'']
      else if c = CHR 0x0A then [CHR 0x5C, CHR ''n'']
      else if c = CHR 0x0D then [CHR 0x5C, CHR ''r'']
      else if c = CHR 0x09 then [CHR 0x5C, CHR ''t'']
      else if c = CHR 0x0B then [CHR 0x5C, CHR ''v'']
      else if (of_char c :: nat) < 32 \<or> c = CHR 0x7F
        then [CHR 0x5C, CHR ''x'', hexdigit ((of_char c :: nat) div 16),
              hexdigit ((of_char c :: nat) mod 16)]
      else [c])"

definition go_quote :: "string \<Rightarrow> string" where
  "go_quote s = dq @ concat (map quote_char s) @ dq"

text \<open>\<open>%v\<close> of an integer: its decimal numeral.\<close>

function string_of_nat :: "nat \<Rightarrow> string" where
  "string_of_nat n =
     (if n < 10 then [char_of (48 + n)]
      else string_of_nat (n div 10) @ [char_of (48 + n mod 10)])"
  by pat_completeness auto
termination
  by (relation "measure id") auto

definition string_of_int :: "int \<Rightarrow> string" where
  "string_of_int i = (if i < 0 then ''-'' @ string_of_nat (nat (- i)) else string_of_nat (nat i))"

text \<open>
  \<open>strings.TrimSpace\<close> on bytes: leading and trailing ASCII white space is removed
  (Go also removes the Unicode spaces, which are not modelled).
\<close>

definition is_space :: "char \<Rightarrow> bool" where
  "is_space c \<longleftrightarrow> c \<in> {CHR 0x09, CHR 0x0A, CHR 0x0B, CHR 0x0C, CHR 0x0D, CHR 0x20}"

definition TrimSpace :: "string \<Rightarrow> string" where
  "TrimSpace s = rev (dropWhile is_space (rev (dropWhile is_space s)))"

text \<open>\<open>strings.HasPrefix\<close>.\<close>

definition HasPrefix :: "string \<Rightarrow> string \<Rightarrow> bool" where
  "HasPrefix s p \<longleftrightarrow> take (length p) s = p"

section \<open>Panics\<close>

text \<open>
  A Go panic ends the whole call.  Every function that can panic returns
  \<open>panic + 'a\<close>, with \<open>Inl\<close> for the panic.
\<close>

datatype panic =
    NilPointerDereference
  | IndexOutOfRange
  | InvalidSchema
  | FailureToCreateSchema string

text \<open>A loop that appends the output of its body for each element, in order.\<close>

fun print_all :: "('a \<Rightarrow> panic + string) \<Rightarrow> 'a list \<Rightarrow> panic + string" where
  "print_all f [] = Inr []"
| "print_all f (x # xs) =
     (case f x of Inl e \<Rightarrow> Inl e
      | Inr a \<Rightarrow> (case print_all f xs of Inl e \<Rightarrow> Inl e | Inr b \<Rightarrow> Inr (a @ b)))"

text \<open>A loop that appends one string per element to a slice of strings.\<close>

fun collect_all :: "('a \<Rightarrow> panic + string) \<Rightarrow> 'a list \<Rightarrow> panic + string list" where
  "collect_all f [] = Inr []"
| "collect_all f (x # xs) =
     (case f x of Inl e \<Rightarrow> Inl e
      | Inr a \<Rightarrow> (case collect_all f xs of Inl e \<Rightarrow> Inl e | Inr b \<Rightarrow> Inr (a # b)))"

section \<open>The data model of the type system\<close>

text \<open>
  Modelled from the spec: the types of the package \<open>graphql\<close> (\<open>Schema\<close>, \<open>Object\<close>,
  \<open>Interface\<close>, \<open>Union\<close>, \<open>Enum\<close>, \<open>InputObject\<close>, \<open>Scalar\<close>, \<open>Directive\<close>,
  \<open>AppliedDirective\<close> and the types of fields and arguments) are declared outside of
  src/.  Each record has the fields that the code under src/ reads or writes, under the
  names that the code uses.
\<close>

text \<open>
  The value of an applied directive's argument is an \<open>interface{}\<close>: nil, a string, a
  boolean, an integer, or a slice of such values.  Floating-point values are left out.
\<close>

datatype arg_value =
    VNil
  | VString string
  | VBool bool
  | VInt int
  | VList "arg_value list"

record applied_directive_argument =
  ada_Name :: string
  ada_Value :: arg_value

record applied_directive =
  ad_Name :: string
  ad_Args :: "applied_directive_argument list"

text \<open>
  Modelled from the spec: the types \<open>graphql.List\<close> and \<open>graphql.NonNull\<close> and the methods
  \<open>Name()\<close> and \<open>String()\<close> of a type are not under src/.  A field or an argument refers
  to its type by name, under list and non-null wrappers; the name of a wrapper is the
  one the printer's tests expect (\<open>[Int!]!\<close> for a non-null list of non-null \<open>Int\<close>).
\<close>

datatype type_ref =
    Named string
  | ListOf type_ref
  | NonNullOf type_ref

fun type_ref_Name :: "type_ref \<Rightarrow> string" where
  "type_ref_Name (Named n) = n"
| "type_ref_Name (ListOf t) = ''['' @ type_ref_Name t @ '']''"
| "type_ref_Name (NonNullOf t) = type_ref_Name t @ ''!''"

fun is_List :: "type_ref \<Rightarrow> bool" where
  "is_List (ListOf t) = True"
| "is_List t = False"

record argument =
  arg_Name :: string
  arg_Type :: type_ref

record directive =
  d_Name :: string
  d_Description :: string
  d_Args :: "argument list"
  d_Locations :: "string list"
  d_Repeatable :: bool

text \<open>
  The resolver of a field is a Go function.  The composer only stores resolvers: nil, a
  function of the caller (an opaque token), or the closure that serves the cached SDL.
\<close>

datatype resolve_fn =
    NoResolve
  | CallerResolve nat
  | ServiceResolve string

record field_definition =
  f_Name :: string
  f_Description :: string
  f_Type :: type_ref
  f_Args :: "argument list"
  f_DeprecationReason :: string
  f_AppliedDirectives :: "applied_directive list"
  f_Resolve :: resolve_fn

record input_object_field =
  if_Name :: string
  if_Description :: string
  if_Type :: type_ref
  if_AppliedDirectives :: "applied_directive list"

record enum_value_definition =
  ev_Name :: string
  ev_Description :: string
  ev_DeprecationReason :: string
  ev_AppliedDirectives :: "applied_directive list"

record enum =
  e_Name :: string
  e_Description :: string
  e_Values :: "enum_value_definition list"
  e_AppliedDirectives :: "applied_directive list"

text \<open>
  A Go map is an association list with pairwise different keys; the order of the list
  is the order in which one \<open>range\<close> loop happens to visit the map.
\<close>

type_synonym 'v go_map = "(string \<times> 'v) list"

record input_object =
  io_Name :: string
  io_Description :: string
  io_Fields :: "input_object_field go_map"
  io_AppliedDirectives :: "applied_directive list"

record interface =
  i_Name :: string
  i_Description :: string
  i_Fields :: "field_definition go_map"
  i_AppliedDirectives :: "applied_directive list"

record object =
  o_Name :: string
  o_Description :: string
  o_Interfaces :: "interface list"
  o_Fields :: "field_definition go_map"
  o_AppliedDirectives :: "applied_directive list"
  o_Extend :: bool

record scalar =
  sc_Name :: string
  sc_Description :: string
  sc_AppliedDirectives :: "applied_directive list"

text \<open>
  Object types are shared by pointer (\<open>*graphql.Object\<close>): the type parameter \<open>'o\<close> is
  what stands for an object type, the object itself where a schema is only read, an
  address where the composer mutates objects.
\<close>

record 'o union_type =
  u_Name :: string
  u_Description :: string
  u_Types :: "'o list"
  u_ResolveType :: "nat option"
  u_AppliedDirectives :: "applied_directive list"

datatype 'o gql_type =
    EnumT enum
  | InputObjectT input_object
  | InterfaceT interface
  | ObjectT 'o
  | UnionT "'o union_type"
  | ScalarT scalar

record 'o schema =
  s_queryType :: "'o option"
  s_mutationType :: "'o option"
  s_subscriptionType :: "'o option"
  s_typeMap :: "'o gql_type go_map"
  s_directives :: "directive list"
  s_appliedDirectives :: "applied_directive list"

section \<open>The SDL printer (schema_printer.go)\<close>

definition printDescription :: "string \<Rightarrow> nat \<Rightarrow> string" where
  "printDescription desc indent =
     (if desc = [] then []
      else (if indent > 0 then spaces indent else []) @
        (if CHR 0x0A \<notin> set desc then dq @ desc @ dq @ nl
         else dq @ dq @ dq @ nl
              @ concat (map (\<lambda>d. spaces indent @ d @ nl) (split_on (CHR 0x0A) desc))
              @ spaces indent @ dq @ dq @ dq @ nl))"

subsection \<open>Applied directives\<close>

fun printAppliedDirectiveArgumentValue :: "arg_value \<Rightarrow> panic + string list"
  and printAppliedDirectiveArgumentValues :: "arg_value list \<Rightarrow> panic + string list" where
  "printAppliedDirectiveArgumentValue VNil = Inl NilPointerDereference"
| "printAppliedDirectiveArgumentValue (VList vs) = printAppliedDirectiveArgumentValues vs"
| "printAppliedDirectiveArgumentValue (VString s) = Inr [go_quote s]"
| "printAppliedDirectiveArgumentValue (VBool b) = Inr [if b then ''true'' else ''false'']"
| "printAppliedDirectiveArgumentValue (VInt i) = Inr [string_of_int i]"
| "printAppliedDirectiveArgumentValues [] = Inr []"
| "printAppliedDirectiveArgumentValues (v # vs) =
     (case printAppliedDirectiveArgumentValue v of Inl e \<Rightarrow> Inl e
      | Inr values \<Rightarrow>
          (case printAppliedDirectiveArgumentValues vs of Inl e \<Rightarrow> Inl e
           | Inr printedValues \<Rightarrow> Inr (values @ printedValues)))"

text \<open>The body of the loop over \<open>applied.Args\<close>; \<open>value[0]\<close> panics on an empty slice.\<close>

definition printAppliedDirectiveArgument :: "applied_directive_argument \<Rightarrow> panic + string" where
  "printAppliedDirectiveArgument arg =
     (case printAppliedDirectiveArgumentValue (ada_Value arg) of Inl e \<Rightarrow> Inl e
      | Inr val \<Rightarrow>
          if length val > 1 then Inr (ada_Name arg @ '': ['' @ join '', '' val @ '']'')
          else (case val of [] \<Rightarrow> Inl IndexOutOfRange
                | v # _ \<Rightarrow> Inr (ada_Name arg @ '': '' @ v)))"

definition printAppliedDirective :: "applied_directive \<Rightarrow> panic + string" where
  "printAppliedDirective applied =
     (if length (ad_Args applied) > 0 then
        (case collect_all printAppliedDirectiveArgument (ad_Args applied) of Inl e \<Rightarrow> Inl e
         | Inr args \<Rightarrow> Inr (''@'' @ ad_Name applied @ ''('' @ join '', '' args @ '')''))
      else Inr (''@'' @ ad_Name applied))"

text \<open>
  \<open>sort.Slice\<close> with the comparison of two names.  Go does not promise an order among
  elements with the same name; the model keeps them in their order (which is also what
  Go's insertion sort does for slices of fewer than twelve elements).  Where the names
  are pairwise different the result does not depend on that choice.
\<close>

definition sortAppliedDirectives :: "applied_directive list \<Rightarrow> applied_directive list" where
  "sortAppliedDirectives appliedDirectives = sort_key ad_Name appliedDirectives"

definition printAppliedDirectives :: "applied_directive list \<Rightarrow> string \<Rightarrow> panic + string" where
  "printAppliedDirectives appliedDirectives deprecationReason =
     (let deprecated =
            (if deprecationReason \<noteq> []
             then '' @deprecated(reason: '' @ go_quote deprecationReason @ '')'' else [])
      in if length appliedDirectives = 0 then Inr deprecated
         else (case print_all
                      (\<lambda>a. case printAppliedDirective a of Inl e \<Rightarrow> Inl e
                            | Inr s \<Rightarrow> Inr ('' '' @ s))
                      (sortAppliedDirectives appliedDirectives) of
                 Inl e \<Rightarrow> Inl e
               | Inr s \<Rightarrow> Inr (deprecated @ s)))"

subsection \<open>The schema block and the directive definitions\<close>

definition printSchemaDefinition :: "object schema \<Rightarrow> panic + string" where
  "printSchemaDefinition schema =
     (case printAppliedDirectives (s_appliedDirectives schema) [] of Inl e \<Rightarrow> Inl e
      | Inr ads \<Rightarrow>
          (case s_queryType schema of
             None \<Rightarrow> Inl InvalidSchema
           | Some q \<Rightarrow>
               Inr (''schema'' @ ads @ '' {'' @ nl @ ''  query: '' @ o_Name q @ nl
                    @ (case s_mutationType schema of None \<Rightarrow> []
                       | Some m \<Rightarrow> ''  mutation: '' @ o_Name m @ nl)
                    @ (case s_subscriptionType schema of None \<Rightarrow> []
                       | Some m \<Rightarrow> ''  subscription: '' @ o_Name m @ nl)
                    @ ''}'' @ nl @ nl)))"

definition sortDirectiveDefinitions :: "directive list \<Rightarrow> directive list" where
  "sortDirectiveDefinitions directives = sort_key d_Name directives"

definition printDirectiveArgument :: "argument \<Rightarrow> string" where
  "printDirectiveArgument arg =
     (if is_List (arg_Type arg)
      then arg_Name arg @ '': ['' @ type_ref_Name (arg_Type arg) @ '']''
      else arg_Name arg @ '': '' @ type_ref_Name (arg_Type arg))"

definition printDirectiveDefinition :: "directive \<Rightarrow> string" where
  "printDirectiveDefinition directive =
     printDescription (d_Description directive) 0
     @ ''directive @'' @ d_Name directive
     @ (if length (d_Args directive) > 0
        then ''('' @ join '', '' (map printDirectiveArgument (d_Args directive)) @ '')''
        else [])
     @ (if d_Repeatable directive then '' repeatable'' else [])
     @ '' on '' @ join '' | '' (d_Locations directive) @ nl @ nl"

definition printDirectiveDefinitions :: "directive list \<Rightarrow> string" where
  "printDirectiveDefinitions directives =
     concat (map printDirectiveDefinition (sortDirectiveDefinitions directives))"

subsection \<open>Enums and input objects\<close>

definition printEnumValue :: "enum_value_definition \<Rightarrow> panic + string" where
  "printEnumValue enumValue =
     (case printAppliedDirectives (ev_AppliedDirectives enumValue)
             (ev_DeprecationReason enumValue) of
        Inl e \<Rightarrow> Inl e
      | Inr ads \<Rightarrow>
          Inr (printDescription (ev_Description enumValue) 2 @ ''  '' @ ev_Name enumValue
               @ ads @ nl))"

definition printEnumDefinition :: "enum \<Rightarrow> panic + string" where
  "printEnumDefinition enum =
     (case printAppliedDirectives (e_AppliedDirectives enum) [] of Inl e \<Rightarrow> Inl e
      | Inr ads \<Rightarrow>
          (case print_all printEnumValue (sort_key ev_Name (e_Values enum)) of
             Inl e \<Rightarrow> Inl e
           | Inr vals \<Rightarrow>
               Inr (printDescription (e_Description enum) 0 @ ''enum '' @ e_Name enum @ ads
                    @ '' {'' @ nl @ vals @ ''}'' @ nl @ nl)))"

definition printEnumDefinitions :: "enum list \<Rightarrow> panic + string" where
  "printEnumDefinitions enums = print_all printEnumDefinition (sort_key e_Name enums)"

text \<open>
  The loop over the sorted keys of a map reads the map at each key.  A key that is not
  in the map would give a nil pointer, whose fields cannot be read.
\<close>

definition printInputObjectField :: "input_object_field go_map \<Rightarrow> string \<Rightarrow> panic + string" where
  "printInputObjectField inputFields key =
     (case map_of inputFields key of
        None \<Rightarrow> Inl NilPointerDereference
      | Some field \<Rightarrow>
          (case printAppliedDirectives (if_AppliedDirectives field) [] of Inl e \<Rightarrow> Inl e
           | Inr ads \<Rightarrow>
               Inr (printDescription (if_Description field) 2 @ ''  '' @ if_Name field
                    @ '': '' @ type_ref_Name (if_Type field) @ ads @ nl)))"

definition printInputObjectFieldDefinitions :: "input_object_field go_map \<Rightarrow> panic + string" where
  "printInputObjectFieldDefinitions inputFields =
     print_all (printInputObjectField inputFields) (sort (map fst inputFields))"

definition printInputObjectDefinition :: "input_object \<Rightarrow> panic + string" where
  "printInputObjectDefinition inputObject =
     (case printAppliedDirectives (io_AppliedDirectives inputObject) [] of Inl e \<Rightarrow> Inl e
      | Inr ads \<Rightarrow>
          (case printInputObjectFieldDefinitions (io_Fields inputObject) of Inl e \<Rightarrow> Inl e
           | Inr body \<Rightarrow>
               Inr (printDescription (io_Description inputObject) 0 @ ''input ''
                    @ io_Name inputObject @ ads @ '' {'' @ nl @ body @ ''}'' @ nl @ nl)))"

definition printInputObjectDefinitions :: "input_object list \<Rightarrow> panic + string" where
  "printInputObjectDefinitions inputObjects =
     print_all printInputObjectDefinition (sort_key io_Name inputObjects)"

subsection \<open>Interfaces, objects, unions and scalars\<close>

definition printFieldArgument :: "argument \<Rightarrow> string" where
  "printFieldArgument arg = arg_Name arg @ '': '' @ type_ref_Name (arg_Type arg)"

definition printFieldDefinition :: "field_definition go_map \<Rightarrow> string \<Rightarrow> panic + string" where
  "printFieldDefinition fieldDefinitionMap key =
     (case map_of fieldDefinitionMap key of
        None \<Rightarrow> Inl NilPointerDereference
      | Some field \<Rightarrow>
          (case printAppliedDirectives (f_AppliedDirectives field)
                  (f_DeprecationReason field) of
             Inl e \<Rightarrow> Inl e
           | Inr ads \<Rightarrow>
               Inr (printDescription (f_Description field) 2 @ ''  '' @ f_Name field
                    @ (if length (f_Args field) > 0
                       then ''('' @ join '', '' (map printFieldArgument (f_Args field)) @ '')''
                       else [])
                    @ '': '' @ type_ref_Name (f_Type field) @ ads @ nl)))"

definition printFieldDefinitions :: "field_definition go_map \<Rightarrow> panic + string" where
  "printFieldDefinitions fieldDefinitionMap =
     print_all (printFieldDefinition fieldDefinitionMap) (sort (map fst fieldDefinitionMap))"

definition printInterfaceDefinition :: "interface \<Rightarrow> panic + string" where
  "printInterfaceDefinition intf =
     (case printAppliedDirectives (i_AppliedDirectives intf) [] of Inl e \<Rightarrow> Inl e
      | Inr ads \<Rightarrow>
          (case printFieldDefinitions (i_Fields intf) of Inl e \<Rightarrow> Inl e
           | Inr body \<Rightarrow>
               Inr (printDescription (i_Description intf) 0 @ ''interface '' @ i_Name intf
                    @ ads @ '' {'' @ nl @ body @ ''}'' @ nl @ nl)))"

definition printInterfaceDefinitions :: "interface list \<Rightarrow> panic + string" where
  "printInterfaceDefinitions interfaces =
     print_all printInterfaceDefinition (sort_key i_Name interfaces)"

text \<open>The implemented interfaces are written in the order of \<open>object.Interfaces()\<close>.\<close>

definition printImplements :: "object \<Rightarrow> string" where
  "printImplements obj =
     (if length (o_Interfaces obj) > 0
      then '' implements '' @ join '', '' (map i_Name (o_Interfaces obj))
      else [])"

definition printObjectDefinition :: "object \<Rightarrow> panic + string" where
  "printObjectDefinition obj =
     (case printAppliedDirectives (o_AppliedDirectives obj) [] of Inl e \<Rightarrow> Inl e
      | Inr ads \<Rightarrow>
          (case printFieldDefinitions (o_Fields obj) of Inl e \<Rightarrow> Inl e
           | Inr body \<Rightarrow>
               Inr (printDescription (o_Description obj) 0 @ ''type '' @ o_Name obj
                    @ printImplements obj @ ads @ '' {'' @ nl @ body @ ''}'' @ nl @ nl)))"

definition printObjectDefinitions :: "object list \<Rightarrow> panic + string" where
  "printObjectDefinitions objects =
     print_all printObjectDefinition (sort_key o_Name objects)"

definition printUnionDefinition :: "object union_type \<Rightarrow> panic + string" where
  "printUnionDefinition un =
     (case printAppliedDirectives (u_AppliedDirectives un) [] of Inl e \<Rightarrow> Inl e
      | Inr ads \<Rightarrow>
          Inr (printDescription (u_Description un) 0 @ ''union '' @ u_Name un @ ads
               @ '' = '' @ join '' | '' (sort (map o_Name (u_Types un))) @ nl @ nl))"

definition printUnionDefinitions :: "object union_type list \<Rightarrow> panic + string" where
  "printUnionDefinitions unions =
     print_all printUnionDefinition (sort_key u_Name unions)"

definition printCustomScalar :: "scalar \<Rightarrow> panic + string" where
  "printCustomScalar scalar =
     (case printAppliedDirectives (sc_AppliedDirectives scalar) [] of Inl e \<Rightarrow> Inl e
      | Inr ads \<Rightarrow>
          Inr (printDescription (sc_Description scalar) 0 @ ''scalar '' @ sc_Name scalar
               @ ads @ nl @ nl))"

definition printCustomScalars :: "scalar list \<Rightarrow> panic + string" where
  "printCustomScalars scalars = print_all printCustomScalar (sort_key sc_Name scalars)"

subsection \<open>PrintSchema\<close>

definition isSchemaDefinitionNeeded :: "object schema \<Rightarrow> bool" where
  "isSchemaDefinitionNeeded schema =
     (if s_queryType schema \<noteq> None \<and> map_option o_Name (s_queryType schema) \<noteq> Some ''Query''
        then True
      else if s_mutationType schema \<noteq> None
              \<and> map_option o_Name (s_mutationType schema) \<noteq> Some ''Mutation''
        then True
      else if s_subscriptionType schema \<noteq> None
              \<and> map_option o_Name (s_subscriptionType schema) \<noteq> Some ''Subscription''
        then True
      else False)"

record PrinterOptions =
  IncludeDirectiveDefinition :: bool
  IncludeSchemaDefinition :: bool

definition DefaultPrinterOptions :: PrinterOptions where
  "DefaultPrinterOptions =
     \<lparr>IncludeDirectiveDefinition = True, IncludeSchemaDefinition = True\<rparr>"

definition buitlInScalars :: "string list" where
  "buitlInScalars = [''Boolean'', ''Float'', ''ID'', ''Int'', ''String'']"

text \<open>The test that makes the loop over the type map skip an entry.\<close>

definition skipped :: "string \<Rightarrow> bool" where
  "skipped name \<longleftrightarrow> HasPrefix name ''__'' \<or> name \<in> set buitlInScalars"

text \<open>
  The loop over \<open>schema.TypeMap()\<close> appends each entry that is not skipped to the slice
  of its kind.  Each slice is the entries of that kind, in the order of the loop.
\<close>

fun enumOf :: "'o gql_type \<Rightarrow> enum option" where
  "enumOf (EnumT t) = Some t"
| "enumOf _ = None"

fun inputObjectOf :: "'o gql_type \<Rightarrow> input_object option" where
  "inputObjectOf (InputObjectT t) = Some t"
| "inputObjectOf _ = None"

fun interfaceOf :: "'o gql_type \<Rightarrow> interface option" where
  "interfaceOf (InterfaceT t) = Some t"
| "interfaceOf _ = None"

fun objectOf :: "'o gql_type \<Rightarrow> 'o option" where
  "objectOf (ObjectT t) = Some t"
| "objectOf _ = None"

fun unionOf :: "'o gql_type \<Rightarrow> 'o union_type option" where
  "unionOf (UnionT t) = Some t"
| "unionOf _ = None"

fun scalarOf :: "'o gql_type \<Rightarrow> scalar option" where
  "scalarOf (ScalarT t) = Some t"
| "scalarOf _ = None"

definition typesOfKind :: "('o gql_type \<Rightarrow> 'a option) \<Rightarrow> 'o gql_type go_map \<Rightarrow> 'a list" where
  "typesOfKind kind typeMap =
     List.map_filter (\<lambda>(name, gqlType). if skipped name then None else kind gqlType) typeMap"

text \<open>The sections are written one after the other; the first panic ends the call.\<close>

fun sections :: "(panic + string) list \<Rightarrow> panic + string" where
  "sections [] = Inr []"
| "sections (x # xs) =
     (case x of Inl e \<Rightarrow> Inl e
      | Inr a \<Rightarrow> (case sections xs of Inl e \<Rightarrow> Inl e | Inr b \<Rightarrow> Inr (a @ b)))"

definition PrintSchema :: "object schema \<Rightarrow> PrinterOptions \<Rightarrow> panic + string" where
  "PrintSchema schema options =
     (case sections
        [if IncludeSchemaDefinition options \<or> isSchemaDefinitionNeeded schema
           then printSchemaDefinition schema else Inr [],
         if IncludeDirectiveDefinition options
           then Inr (printDirectiveDefinitions (s_directives schema)) else Inr [],
         printEnumDefinitions (typesOfKind enumOf (s_typeMap schema)),
         printInputObjectDefinitions (typesOfKind inputObjectOf (s_typeMap schema)),
         printInterfaceDefinitions (typesOfKind interfaceOf (s_typeMap schema)),
         printObjectDefinitions (typesOfKind objectOf (s_typeMap schema)),
         printUnionDefinitions (typesOfKind unionOf (s_typeMap schema)),
         printCustomScalars (typesOfKind scalarOf (s_typeMap schema))] of
        Inl e \<Rightarrow> Inl e
      | Inr sdl \<Rightarrow> Inr (TrimSpace sdl))"

section \<open>The directive catalog (directives.go)\<close>

text \<open>
  Modelled from the spec: the constants \<open>graphql.DirectiveLocation...\<close> and the three
  built-in directives \<open>graphql.DeprecatedDirective\<close>, \<open>graphql.IncludeDirective\<close> and
  \<open>graphql.SkipDirective\<close> are not under src/; their text is the one of the expected
  output of the tests.
\<close>

definition DeprecatedDirective :: directive where
  "DeprecatedDirective =
     \<lparr>d_Name = ''deprecated'',
      d_Description = ''Marks an element of a GraphQL schema as no longer supported.'',
      d_Args = [\<lparr>arg_Name = ''reason'', arg_Type = Named ''String''\<rparr>],
      d_Locations = [''FIELD_DEFINITION'', ''ENUM_VALUE''],
      d_Repeatable = False\<rparr>"

definition IncludeDirective :: directive where
  "IncludeDirective =
     \<lparr>d_Name = ''include'',
      d_Description = ''Directs the executor to include this field or fragment only when the `if` argument is true.'',
      d_Args = [\<lparr>arg_Name = ''if'', arg_Type = NonNullOf (Named ''Boolean'')\<rparr>],
      d_Locations = [''FIELD'', ''FRAGMENT_SPREAD'', ''INLINE_FRAGMENT''],
      d_Repeatable = False\<rparr>"

definition SkipDirective :: directive where
  "SkipDirective =
     \<lparr>d_Name = ''skip'',
      d_Description = ''Directs the executor to skip this field or fragment when the `if` argument is true.'',
      d_Args = [\<lparr>arg_Name = ''if'', arg_Type = NonNullOf (Named ''Boolean'')\<rparr>],
      d_Locations = [''FIELD'', ''FRAGMENT_SPREAD'', ''INLINE_FRAGMENT''],
      d_Repeatable = False\<rparr>"

definition ComposeDirectiveDefinition :: directive where
  "ComposeDirectiveDefinition =
     \<lparr>d_Name = ''composeDirective'',
      d_Description = [],
      d_Args = [\<lparr>arg_Name = ''name'', arg_Type = NonNullOf (Named ''String'')\<rparr>],
      d_Locations = [''SCHEMA''],
      d_Repeatable = True\<rparr>"

definition ExternalDirectiveDefinition :: directive where
  "ExternalDirectiveDefinition =
     \<lparr>d_Name = ''external'',
      d_Description = ''Marks target field as external meaning it will be resolved by federated schema'',
      d_Args = [],
      d_Locations = [''FIELD_DEFINITION''],
      d_Repeatable = False\<rparr>"

definition InaccessibleDirectiveDefinition :: directive where
  "InaccessibleDirectiveDefinition =
     \<lparr>d_Name = ''inaccessible'',
      d_Description = ''Marks location within schema as inaccessible from the GraphQL Gateway'',
      d_Args = [],
      d_Locations = [''FIELD_DEFINITION'', ''OBJECT'', ''INTERFACE'', ''UNION'', ''ENUM'',
                     ''ENUM_VALUE'', ''SCALAR'', ''INPUT_OBJECT'', ''INPUT_FIELD_DEFINITION'',
                     ''ARGUMENT_DEFINITION''],
      d_Repeatable = False\<rparr>"

definition KeyDirectiveDefinition :: directive where
  "KeyDirectiveDefinition =
     \<lparr>d_Name = ''key'',
      d_Description = ''Space separated list of primary keys needed to access federated object'',
      d_Args = [\<lparr>arg_Name = ''fields'', arg_Type = NonNullOf (Named ''FieldSet'')\<rparr>,
                \<lparr>arg_Name = ''resolvable'', arg_Type = Named ''Boolean''\<rparr>],
      d_Locations = [''OBJECT'', ''INTERFACE''],
      d_Repeatable = True\<rparr>"

definition LinkDirectiveDefinition :: directive where
  "LinkDirectiveDefinition =
     \<lparr>d_Name = ''link'',
      d_Description = [],
      d_Args = [\<lparr>arg_Name = ''url'', arg_Type = NonNullOf (Named ''String'')\<rparr>,
                \<lparr>arg_Name = ''import'', arg_Type = ListOf (Named ''String'')\<rparr>],
      d_Locations = [''SCHEMA''],
      d_Repeatable = True\<rparr>"

definition OverrideDirectiveDefinition :: directive where
  "OverrideDirectiveDefinition =
     \<lparr>d_Name = ''override'',
      d_Description = ''Overrides fields resolution logic from other subgraph. Used for migrating fields from one subgraph to another.'',
      d_Args = [\<lparr>arg_Name = ''from'', arg_Type = NonNullOf (Named ''String'')\<rparr>],
      d_Locations = [''FIELD_DEFINITION''],
      d_Repeatable = False\<rparr>"

definition ProvidesDirectiveDefinition :: directive where
  "ProvidesDirectiveDefinition =
     \<lparr>d_Name = ''provides'',
      d_Description = ''Specifies locally selectable fields on a given entity'',
      d_Args = [\<lparr>arg_Name = ''fields'', arg_Type = NonNullOf (Named ''FieldSet'')\<rparr>],
      d_Locations = [''FIELD_DEFINITION''],
      d_Repeatable = False\<rparr>"

definition RequiresDirectiveDefinition :: directive where
  "RequiresDirectiveDefinition =
     \<lparr>d_Name = ''requires'',
      d_Description = ''Specifies external federated fields required for computing this field value'',
      d_Args = [\<lparr>arg_Name = ''fields'', arg_Type = NonNullOf (Named ''FieldSet'')\<rparr>],
      d_Locations = [''FIELD_DEFINITION''],
      d_Repeatable = False\<rparr>"

definition ShareableDirectiveDefinition :: directive where
  "ShareableDirectiveDefinition =
     \<lparr>d_Name = ''shareable'',
      d_Description = ''Indicates that given object and/or field can be resolved by multiple subgraphs'',
      d_Args = [],
      d_Locations = [''FIELD_DEFINITION'', ''OBJECT''],
      d_Repeatable = False\<rparr>"

definition TagDirectiveDefinition :: directive where
  "TagDirectiveDefinition =
     \<lparr>d_Name = ''tag'',
      d_Description = ''Allows users to annotate fields and types with additional metadata information'',
      d_Args = [\<lparr>arg_Name = ''name'', arg_Type = NonNullOf (Named ''String'')\<rparr>],
      d_Locations = [''FIELD_DEFINITION'', ''OBJECT'', ''INTERFACE'', ''UNION'',
                     ''ARGUMENT_DEFINITION'', ''SCALAR'', ''ENUM'', ''ENUM_VALUE'',
                     ''INPUT_OBJECT'', ''INPUT_FIELD_DEFINITION''],
      d_Repeatable = True\<rparr>"

subsection \<open>Constructors of applied directives\<close>

definition ExternalAppliedDirective :: applied_directive where
  "ExternalAppliedDirective = \<lparr>ad_Name = ''external'', ad_Args = []\<rparr>"

definition KeyAppliedDirective :: "string \<Rightarrow> bool \<Rightarrow> applied_directive" where
  "KeyAppliedDirective fieldSet resolvable =
     \<lparr>ad_Name = ''key'',
      ad_Args = [\<lparr>ada_Name = ''fields'', ada_Value = VString fieldSet\<rparr>,
                 \<lparr>ada_Name = ''resolvable'', ada_Value = VBool resolvable\<rparr>]\<rparr>"

text \<open>The \<open>[]string\<close> of the imports is a slice whose elements are strings.\<close>

definition LinkAppliedDirective :: "string \<Rightarrow> string list \<Rightarrow> applied_directive" where
  "LinkAppliedDirective url imports =
     \<lparr>ad_Name = ''link'',
      ad_Args = [\<lparr>ada_Name = ''url'', ada_Value = VString url\<rparr>,
                 \<lparr>ada_Name = ''import'', ada_Value = VList (map VString imports)\<rparr>]\<rparr>"

section \<open>The composer of the federated schema\<close>

subsection \<open>Objects in the store\<close>

text \<open>
  The composer adds fields to object types that the caller and the schema share by
  pointer.  The store holds the object types; a pointer is an index into it.  Go has no
  pointer to an object that was never allocated: reading an address outside of the
  store is modelled as the panic of a nil pointer.
\<close>

type_synonym ref = nat

type_synonym store = "object list"

definition deref :: "store \<Rightarrow> ref \<Rightarrow> object option" where
  "deref h r = (if r < length h then Some (h ! r) else None)"

text \<open>
  Modelled from the spec: \<open>graphql.NewObject\<close> is not under src/.  It allocates the object
  type of the given configuration and returns its address.
\<close>

definition NewObject :: "store \<Rightarrow> object \<Rightarrow> store \<times> ref" where
  "NewObject h obj = (h @ [obj], length h)"

text \<open>
  Modelled from the spec: the method \<open>AddFieldConfig\<close> of \<open>graphql.Object\<close> is not under
  src/.  It adds the field to the object's field map in place, under the given name
  (an assignment to a Go map: a field already stored under that name is replaced, which
  is what the composer relies on when it adds \<open>_service\<close> a second time).
\<close>

definition AddFieldConfig :: "store \<Rightarrow> ref \<Rightarrow> string \<Rightarrow> field_definition \<Rightarrow> panic + store" where
  "AddFieldConfig h r fieldName fieldConfig =
     (case deref h r of
        None \<Rightarrow> Inl NilPointerDereference
      | Some obj \<Rightarrow>
          Inr (h[r := obj\<lparr>o_Fields := AList.update fieldName fieldConfig (o_Fields obj)\<rparr>]))"

text \<open>
  Reading a schema through its pointers gives the schema that the printer walks: each
  address of an object type is replaced by the object stored there.
\<close>

fun view_type :: "store \<Rightarrow> ref gql_type \<Rightarrow> object gql_type option" where
  "view_type h (EnumT t) = Some (EnumT t)"
| "view_type h (InputObjectT t) = Some (InputObjectT t)"
| "view_type h (InterfaceT t) = Some (InterfaceT t)"
| "view_type h (ObjectT r) = map_option ObjectT (deref h r)"
| "view_type h (UnionT u) =
     map_option
       (\<lambda>ts. UnionT \<lparr>u_Name = u_Name u, u_Description = u_Description u, u_Types = ts,
                     u_ResolveType = u_ResolveType u,
                     u_AppliedDirectives = u_AppliedDirectives u\<rparr>)
       (those (map (deref h) (u_Types u)))"
| "view_type h (ScalarT t) = Some (ScalarT t)"

definition view_root :: "store \<Rightarrow> ref option \<Rightarrow> object option option" where
  "view_root h root =
     (case root of None \<Rightarrow> Some None
      | Some r \<Rightarrow> (case deref h r of None \<Rightarrow> None | Some obj \<Rightarrow> Some (Some obj)))"

definition view_schema :: "store \<Rightarrow> ref schema \<Rightarrow> object schema option" where
  "view_schema h schema =
     (case (view_root h (s_queryType schema), view_root h (s_mutationType schema),
            view_root h (s_subscriptionType schema),
            those (map (\<lambda>(name, t). map_option (Pair name) (view_type h t))
                     (s_typeMap schema))) of
        (Some q, Some m, Some sub, Some tm) \<Rightarrow>
          Some \<lparr>s_queryType = q, s_mutationType = m, s_subscriptionType = sub,
                s_typeMap = tm, s_directives = s_directives schema,
                s_appliedDirectives = s_appliedDirectives schema\<rparr>
      | _ \<Rightarrow> None)"

definition PrintSchemaAt :: "store \<Rightarrow> ref schema \<Rightarrow> PrinterOptions \<Rightarrow> panic + string" where
  "PrintSchemaAt h schema options =
     (case view_schema h schema of
        None \<Rightarrow> Inl NilPointerDereference
      | Some v \<Rightarrow> PrintSchema v options)"

subsection \<open>Configuration and federated types\<close>

record SchemaConfig =
  c_Query :: "ref option"
  c_Mutation :: "ref option"
  c_Subscription :: "ref option"
  c_Types :: "ref gql_type list"
  c_Directives :: "directive list"
  c_AppliedDirectives :: "applied_directive list"

record FederatedSchemaConfig =
  EntitiesFieldResolver :: resolve_fn
  EntityTypeResolver :: "nat option"
  fc_SchemaConfig :: SchemaConfig

definition AnyType :: scalar where
  "AnyType =
     \<lparr>sc_Name = ''_Any'',
      sc_Description = ''The `_Any` scalar is used to pass representations of entities from external services into the root _entities field for execution.'',
      sc_AppliedDirectives = []\<rparr>"

definition FieldSetType :: scalar where
  "FieldSetType =
     \<lparr>sc_Name = ''FieldSet'',
      sc_Description = ''String-serialized scalar represents a set of fields that's passed to a federated directive, such as @key, @requires, or @provides'',
      sc_AppliedDirectives = []\<rparr>"

text \<open>
  The package variable \<open>_ServiceType\<close> points to an object type that is allocated when
  the package is loaded, before any call of the composer: it is the object at the first
  address of the store.
\<close>

definition ServiceType :: object where
  "ServiceType =
     \<lparr>o_Name = ''_Service'', o_Description = [], o_Interfaces = [],
      o_Fields = [(''sdl'',
         \<lparr>f_Name = ''sdl'', f_Description = [], f_Type = NonNullOf (Named ''String''),
          f_Args = [], f_DeprecationReason = [], f_AppliedDirectives = [],
          f_Resolve = NoResolve\<rparr>)],
      o_AppliedDirectives = [], o_Extend = False\<rparr>"

definition ServiceTypeRef :: ref where
  "ServiceTypeRef = 0"

definition initial_store :: store where
  "initial_store = [ServiceType]"

definition isEntity :: "object \<Rightarrow> bool" where
  "isEntity t =
     (if o_Extend t then False
      else list_ex (\<lambda>directive. ad_Name directive = ''key'') (o_AppliedDirectives t))"

fun findEntityTypesLoop :: "store \<Rightarrow> ref gql_type go_map \<Rightarrow> panic + ref list" where
  "findEntityTypesLoop h [] = Inr []"
| "findEntityTypesLoop h ((name, ObjectT r) # rest) =
     (case deref h r of
        None \<Rightarrow> Inl NilPointerDereference
      | Some obj \<Rightarrow>
          (case findEntityTypesLoop h rest of Inl e \<Rightarrow> Inl e
           | Inr entities \<Rightarrow> Inr (if isEntity obj then r # entities else entities)))"
| "findEntityTypesLoop h ((name, gqlType) # rest) = findEntityTypesLoop h rest"

definition findEntityTypes :: "store \<Rightarrow> ref schema \<Rightarrow> panic + ref list" where
  "findEntityTypes h schema = findEntityTypesLoop h (s_typeMap schema)"

definition federationLinkAppliedDirective :: applied_directive where
  "federationLinkAppliedDirective =
     LinkAppliedDirective ''https://specs.apollo.dev/federation/v2.1''
       [''@composeDirective'', ''@external'', ''@inaccessible'', ''@key'', ''@override'',
        ''@provides'', ''@requires'', ''@shareable'', ''@tag'', ''FieldSet'']"

subsection \<open>NewFederatedSchema\<close>

definition builtInDirectives :: "directive list" where
  "builtInDirectives = [DeprecatedDirective, IncludeDirective, SkipDirective]"

definition federatedDirectives :: "directive list" where
  "federatedDirectives =
     [ComposeDirectiveDefinition, ExternalDirectiveDefinition,
      InaccessibleDirectiveDefinition, KeyDirectiveDefinition, LinkDirectiveDefinition,
      OverrideDirectiveDefinition, ProvidesDirectiveDefinition,
      RequiresDirectiveDefinition, ShareableDirectiveDefinition, TagDirectiveDefinition]"

definition serviceField :: "resolve_fn \<Rightarrow> field_definition" where
  "serviceField resolve =
     \<lparr>f_Name = ''_service'', f_Description = [], f_Type = Named ''_Service'', f_Args = [],
      f_DeprecationReason = [], f_AppliedDirectives = [], f_Resolve = resolve\<rparr>"

definition entitiesField :: "resolve_fn \<Rightarrow> field_definition" where
  "entitiesField resolve =
     \<lparr>f_Name = ''_entities'', f_Description = [],
      f_Type = NonNullOf (ListOf (Named ''_Entity'')),
      f_Args = [\<lparr>arg_Name = ''representations'',
                 arg_Type = NonNullOf (ListOf (NonNullOf (Named ''_Any'')))\<rparr>],
      f_DeprecationReason = [], f_AppliedDirectives = [], f_Resolve = resolve\<rparr>"

definition newQuery :: object where
  "newQuery =
     \<lparr>o_Name = ''Query'', o_Description = [], o_Interfaces = [],
      o_Fields = [(''_service'', serviceField NoResolve)],
      o_AppliedDirectives = [], o_Extend = False\<rparr>"

definition ExtendHelper :: object where
  "ExtendHelper =
     \<lparr>o_Name = ''_ExtendHelper'', o_Description = [], o_Interfaces = [],
      o_Fields = [(''id'',
         \<lparr>f_Name = ''id'', f_Description = [], f_Type = NonNullOf (Named ''ID''),
          f_Args = [], f_DeprecationReason = [],
          f_AppliedDirectives = [ExternalAppliedDirective], f_Resolve = NoResolve\<rparr>)],
      o_AppliedDirectives = [], o_Extend = False\<rparr>"

text \<open>
  Lines 137 to 164: the directive definitions, the \<open>@link\<close> of the schema block and the
  federated types are appended to the configuration.
\<close>

definition augmentConfig :: "SchemaConfig \<Rightarrow> SchemaConfig" where
  "augmentConfig config =
     config\<lparr>c_Directives := c_Directives config @ builtInDirectives @ federatedDirectives,
            c_AppliedDirectives := c_AppliedDirectives config @ [federationLinkAppliedDirective],
            c_Types := c_Types config @ [ScalarT AnyType, ScalarT FieldSetType,
                                        ObjectT ServiceTypeRef]\<rparr>"

text \<open>Lines 165 to 183: a query type is made, or \<open>_service\<close> is added to the caller's.\<close>

definition ensureQuery :: "store \<Rightarrow> SchemaConfig \<Rightarrow> panic + store \<times> SchemaConfig" where
  "ensureQuery h config =
     (case c_Query config of
        None \<Rightarrow>
          (let (h', query) = NewObject h newQuery
           in Inr (h', config\<lparr>c_Query := Some query\<rparr>))
      | Some query \<Rightarrow>
          (case AddFieldConfig h query ''_service'' (serviceField NoResolve) of
             Inl e \<Rightarrow> Inl e
           | Inr h' \<Rightarrow> Inr (h', config)))"

text \<open>
  Lines 190 to 214: the entities are found, or the placeholder is made; the union over
  them is stored in the type map under \<open>_Entity\<close>.  (Modelled from the spec:
  \<open>graphql.NewUnion\<close> is not under src/; the union it returns has the name, the member
  types and the resolver of its configuration.)
\<close>

definition entityUnion :: "nat option \<Rightarrow> ref list \<Rightarrow> ref union_type" where
  "entityUnion resolveType entities =
     \<lparr>u_Name = ''_Entity'', u_Description = [], u_Types = entities,
      u_ResolveType = resolveType, u_AppliedDirectives = []\<rparr>"

definition addEntityUnion ::
  "store \<Rightarrow> nat option \<Rightarrow> ref schema \<Rightarrow> panic + store \<times> ref schema" where
  "addEntityUnion h resolveType schema =
     (case findEntityTypes h schema of
        Inl e \<Rightarrow> Inl e
      | Inr found \<Rightarrow>
          (let (h', entities) =
                 (if length found = 0
                  then (let (h', helper) = NewObject h ExtendHelper in (h', found @ [helper]))
                  else (h, found))
           in Inr (h', schema\<lparr>s_typeMap :=
                     AList.update ''_Entity'' (UnionT (entityUnion resolveType entities))
                       (s_typeMap schema)\<rparr>)))"

text \<open>
  Lines 216 to 236: \<open>_entities\<close> is added to the query type of the schema, the SDL is
  printed once, and \<open>_service\<close> is added again, with the resolver that serves that text.
\<close>

definition addFederatedFields ::
  "store \<Rightarrow> resolve_fn \<Rightarrow> ref schema \<Rightarrow> panic + store" where
  "addFederatedFields h resolve schema =
     (case s_queryType schema of
        None \<Rightarrow> Inl NilPointerDereference
      | Some query \<Rightarrow>
          (case AddFieldConfig h query ''_entities'' (entitiesField resolve) of
             Inl e \<Rightarrow> Inl e
           | Inr h' \<Rightarrow>
               (case PrintSchemaAt h' schema DefaultPrinterOptions of
                  Inl e \<Rightarrow> Inl e
                | Inr sdl \<Rightarrow>
                    AddFieldConfig h' query ''_service'' (serviceField (ServiceResolve sdl)))))"

text \<open>
  \<open>graphql.NewSchema\<close> is not under src/: the composer is given the build as the
  parameter \<open>newSchema\<close>, which reads the store and returns the schema and the error
  (\<open>None\<close> for nil).  A build that fails makes the composer panic.
\<close>

definition NewFederatedSchema ::
  "(store \<Rightarrow> SchemaConfig \<Rightarrow> ref schema \<times> string option) \<Rightarrow> store \<Rightarrow> FederatedSchemaConfig
     \<Rightarrow> panic + store \<times> ref schema \<times> string option" where
  "NewFederatedSchema newSchema h config =
     (case ensureQuery h (augmentConfig (fc_SchemaConfig config)) of
        Inl e \<Rightarrow> Inl e
      | Inr (h1, config1) \<Rightarrow>
          (let (schema, err) = newSchema h1 config1
           in case err of
                Some msg \<Rightarrow> Inl (FailureToCreateSchema (''failure to create schema'' @ msg))
              | None \<Rightarrow>
                  (case addEntityUnion h1 (EntityTypeResolver config) schema of
                     Inl e \<Rightarrow> Inl e
                   | Inr (h2, schema2) \<Rightarrow>
                       (case addFederatedFields h2 (EntitiesFieldResolver config) schema2 of
                          Inl e \<Rightarrow> Inl e
                        | Inr h3 \<Rightarrow> Inr (h3, schema2, err)))))"

subsection \<open>A build of the underlying schema\<close>

text \<open>
  Modelled from the spec: \<open>graphql.NewSchema\<close> is not under src/.  The spec describes it
  as a build that validates the structure (a root query type is present, no two types
  and no two directives share a name) and fails with a descriptive error; the schema it
  returns keeps the pointers of the configuration, and its type map holds the root types
  and the types of the configuration under their names.  The general theorems below
  hold for every build; this one gives them a concrete input.
\<close>

definition gql_type_Name :: "store \<Rightarrow> ref gql_type \<Rightarrow> string option" where
  "gql_type_Name h t =
     (case t of
        EnumT e \<Rightarrow> Some (e_Name e)
      | InputObjectT i \<Rightarrow> Some (io_Name i)
      | InterfaceT i \<Rightarrow> Some (i_Name i)
      | ObjectT r \<Rightarrow> map_option o_Name (deref h r)
      | UnionT u \<Rightarrow> Some (u_Name u)
      | ScalarT sc \<Rightarrow> Some (sc_Name sc))"

fun collectTypes ::
  "store \<Rightarrow> ref gql_type list \<Rightarrow> ref gql_type go_map \<Rightarrow> string + ref gql_type go_map" where
  "collectTypes h [] typeMap = Inr typeMap"
| "collectTypes h (t # ts) typeMap =
     (case gql_type_Name h t of
        None \<Rightarrow> Inl ''Schema must contain allocated types.''
      | Some name \<Rightarrow>
          (case map_of typeMap name of
             None \<Rightarrow> collectTypes h ts (typeMap @ [(name, t)])
           | Some t' \<Rightarrow>
               if t' = t then collectTypes h ts typeMap
               else Inl (''Schema must contain unique named types but contains multiple types named '' @ name @ ''.'')))"

definition emptySchema :: "ref schema" where
  "emptySchema =
     \<lparr>s_queryType = None, s_mutationType = None, s_subscriptionType = None,
      s_typeMap = [], s_directives = [], s_appliedDirectives = []\<rparr>"

definition NewSchema :: "store \<Rightarrow> SchemaConfig \<Rightarrow> ref schema \<times> string option" where
  "NewSchema h config =
     (case c_Query config of
        None \<Rightarrow> (emptySchema, Some ''Schema query must be Object Type but got: nil.'')
      | Some query \<Rightarrow>
          if \<not> distinct (map d_Name (c_Directives config))
          then (emptySchema, Some ''Schema must contain unique named directives.'')
          else
            (case collectTypes h
                    (map ObjectT (query # (case c_Mutation config of None \<Rightarrow> [] | Some m \<Rightarrow> [m])
                                   @ (case c_Subscription config of None \<Rightarrow> [] | Some sub \<Rightarrow> [sub]))
                     @ c_Types config) [] of
               Inl msg \<Rightarrow> (emptySchema, Some msg)
             | Inr typeMap \<Rightarrow>
                 (\<lparr>s_queryType = Some query, s_mutationType = c_Mutation config,
                   s_subscriptionType = c_Subscription config, s_typeMap = typeMap,
                   s_directives = c_Directives config,
                   s_appliedDirectives = c_AppliedDirectives config\<rparr>, None)))"

subsection \<open>Example inputs\<close>

definition emptyConfig :: SchemaConfig where
  "emptyConfig =
     \<lparr>c_Query = None, c_Mutation = None, c_Subscription = None, c_Types = [],
      c_Directives = [], c_AppliedDirectives = []\<rparr>"

definition federated :: "SchemaConfig \<Rightarrow> FederatedSchemaConfig" where
  "federated config =
     \<lparr>EntitiesFieldResolver = CallerResolve 0, EntityTypeResolver = Some 1,
      fc_SchemaConfig = config\<rparr>"


text \<open>
  A query type of the caller that already has a field under the name \<open>_service\<close>, next
  to a field \<open>hello\<close>.
\<close>

definition callerQuery :: object where
  "callerQuery =
     \<lparr>o_Name = ''Query'', o_Description = [], o_Interfaces = [],
      o_Fields =
        [(''_service'',
          \<lparr>f_Name = ''_service'', f_Description = [], f_Type = Named ''String'',
           f_Args = [], f_DeprecationReason = [], f_AppliedDirectives = [],
           f_Resolve = CallerResolve 7\<rparr>),
         (''hello'',
          \<lparr>f_Name = ''hello'', f_Description = [], f_Type = Named ''String'',
           f_Args = [], f_DeprecationReason = [], f_AppliedDirectives = [],
           f_Resolve = CallerResolve 8\<rparr>)],
      o_AppliedDirectives = [], o_Extend = False\<rparr>"

definition callerStore :: store where
  "callerStore = initial_store @ [callerQuery]"

definition callerConfig :: SchemaConfig where
  "callerConfig = emptyConfig\<lparr>c_Query := Some 1\<rparr>"

text \<open>A configuration whose schema block carries a \<open>@link\<close> that imports nothing.\<close>

definition emptyImportConfig :: SchemaConfig where
  "emptyImportConfig =
     emptyConfig\<lparr>c_AppliedDirectives := [LinkAppliedDirective ''https://example.com/spec'' []]\<rparr>"

text \<open>An object type that implements \<open>Zeta\<close> and then \<open>Alpha\<close>, and a schema with that type.\<close>

definition namedInterface :: "string \<Rightarrow> interface" where
  "namedInterface name =
     \<lparr>i_Name = name, i_Description = [], i_Fields = [], i_AppliedDirectives = []\<rparr>"

definition plainField :: "string \<Rightarrow> type_ref \<Rightarrow> field_definition" where
  "plainField name t =
     \<lparr>f_Name = name, f_Description = [], f_Type = t, f_Args = [],
      f_DeprecationReason = [], f_AppliedDirectives = [], f_Resolve = NoResolve\<rparr>"

text \<open>
  The object type \<open>Product\<close> of the repository's test, with the key \<open>id\<close>, and a
  configuration that lists it; and the same type marked as an \<open>extend\<close> stub.
\<close>

definition productType :: object where
  "productType =
     \<lparr>o_Name = ''Product'', o_Description = [], o_Interfaces = [],
      o_Fields = [(''id'', plainField ''id'' (NonNullOf (Named ''ID''))),
                  (''description'', plainField ''description'' (Named ''String''))],
      o_AppliedDirectives = [KeyAppliedDirective ''id'' True], o_Extend = False\<rparr>"

definition productStore :: store where
  "productStore = initial_store @ [productType]"

definition extendStore :: store where
  "extendStore = initial_store @ [productType\<lparr>o_Extend := True\<rparr>]"

definition productConfig :: SchemaConfig where
  "productConfig = emptyConfig\<lparr>c_Types := [ObjectT 1]\<rparr>"

definition implObject :: object where
  "implObject =
     \<lparr>o_Name = ''Impl'', o_Description = [],
      o_Interfaces = [namedInterface ''Zeta'', namedInterface ''Alpha''],
      o_Fields = [(''id'', plainField ''id'' (Named ''ID''))],
      o_AppliedDirectives = [], o_Extend = False\<rparr>"

definition noOptions :: PrinterOptions where
  "noOptions = \<lparr>IncludeDirectiveDefinition = False, IncludeSchemaDefinition = False\<rparr>"

definition plainQuery :: object where
  "plainQuery =
     \<lparr>o_Name = ''Query'', o_Description = [], o_Interfaces = [],
      o_Fields = [(''hello'', plainField ''hello'' (Named ''String''))],
      o_AppliedDirectives = [], o_Extend = False\<rparr>"


text \<open>A schema, as \<open>graphql.NewSchema\<close> builds it, with the \<open>@link\<close> that imports nothing.\<close>

definition emptyImportSchema :: "object schema" where
  "emptyImportSchema =
     \<lparr>s_queryType = Some plainQuery, s_mutationType = None, s_subscriptionType = None,
      s_typeMap = [(''Query'', ObjectT plainQuery)], s_directives = [],
      s_appliedDirectives = [LinkAppliedDirective ''https://example.com/spec'' []]\<rparr>"

section \<open>Notions used in the statements\<close>


text \<open>The field stored under a name in the object type at an address.\<close>

definition fieldAt :: "store \<Rightarrow> ref \<Rightarrow> string \<Rightarrow> field_definition option" where
  "fieldAt h r name =
     (case deref h r of None \<Rightarrow> None | Some obj \<Rightarrow> map_of (o_Fields obj) name)"

text \<open>
  An entity, in the words of the specification: an object type that is not an
  \<open>extend\<close> stub and that carries an applied directive of the name \<open>key\<close>.  This is
  stated on the data, without the composer's test \<open>isEntity\<close>.
\<close>

definition entityObject :: "object \<Rightarrow> bool" where
  "entityObject obj \<longleftrightarrow> \<not> o_Extend obj \<and> ''key'' \<in> set (map ad_Name (o_AppliedDirectives obj))"

text \<open>
  The object types registered in a type map that are entities, as addresses, in the
  order of the type map; the schema contains no entity when this list is empty.
\<close>

definition entityObjects :: "store \<Rightarrow> ref gql_type go_map \<Rightarrow> ref list" where
  "entityObjects h typeMap =
     filter (\<lambda>r. case deref h r of None \<Rightarrow> False | Some obj \<Rightarrow> entityObject obj)
       (List.map_filter (\<lambda>entry. objectOf (snd entry)) typeMap)"

text \<open>The members of the union stored under \<open>_Entity\<close> in the type map of a schema.\<close>

definition entityMembers :: "'o schema \<Rightarrow> 'o list option" where
  "entityMembers schema =
     (case map_of (s_typeMap schema) ''_Entity'' of
        Some (UnionT u) \<Rightarrow> Some (u_Types u)
      | _ \<Rightarrow> None)"

text \<open>
  A Go map has one entry for each key.  The type map of a schema is keyed by the names
  of the types.
\<close>

definition wf_map :: "'v go_map \<Rightarrow> bool" where
  "wf_map m \<longleftrightarrow> distinct (map fst m)"

fun type_Name :: "object gql_type \<Rightarrow> string" where
  "type_Name (EnumT t) = e_Name t"
| "type_Name (InputObjectT t) = io_Name t"
| "type_Name (InterfaceT t) = i_Name t"
| "type_Name (ObjectT t) = o_Name t"
| "type_Name (UnionT t) = u_Name t"
| "type_Name (ScalarT t) = sc_Name t"

fun wf_type :: "object gql_type \<Rightarrow> bool" where
  "wf_type (InputObjectT t) = wf_map (io_Fields t)"
| "wf_type (InterfaceT t) = wf_map (i_Fields t)"
| "wf_type (ObjectT t) = wf_map (o_Fields t)"
| "wf_type _ = True"

definition wf_entry :: "string \<times> object gql_type \<Rightarrow> bool" where
  "wf_entry entry \<longleftrightarrow> type_Name (snd entry) = fst entry \<and> wf_type (snd entry)"

definition wf_schema :: "object schema \<Rightarrow> bool" where
  "wf_schema schema \<longleftrightarrow> wf_map (s_typeMap schema) \<and> list_all wf_entry (s_typeMap schema)"

text \<open>
  Two types are the same up to the order in which their field maps are visited: the
  entries of the field map are the same, in any order, and nothing else differs.
\<close>

fun same_type :: "object gql_type \<Rightarrow> object gql_type \<Rightarrow> bool" where
  "same_type (InputObjectT a) (InputObjectT b) =
     (mset (io_Fields b) = mset (io_Fields a) \<and> b\<lparr>io_Fields := io_Fields a\<rparr> = a)"
| "same_type (InterfaceT a) (InterfaceT b) =
     (mset (i_Fields b) = mset (i_Fields a) \<and> b\<lparr>i_Fields := i_Fields a\<rparr> = a)"
| "same_type (ObjectT a) (ObjectT b) =
     (mset (o_Fields b) = mset (o_Fields a) \<and> b\<lparr>o_Fields := o_Fields a\<rparr> = a)"
| "same_type a b = (a = b)"

definition same_entry :: "string \<times> object gql_type \<Rightarrow> string \<times> object gql_type \<Rightarrow> bool" where
  "same_entry x y \<longleftrightarrow> fst x = fst y \<and> same_type (snd x) (snd y)"

text \<open>A schema with two object types, an enum and an input object, for the examples.\<close>

definition orderObject :: "field_definition go_map \<Rightarrow> object" where
  "orderObject fieldMap =
     \<lparr>o_Name = ''Query'', o_Description = [], o_Interfaces = [], o_Fields = fieldMap,
      o_AppliedDirectives = [], o_Extend = False\<rparr>"

definition orderEnum :: enum where
  "orderEnum =
     \<lparr>e_Name = ''Color'', e_Description = [],
      e_Values = [\<lparr>ev_Name = ''RED'', ev_Description = [], ev_DeprecationReason = [],
                   ev_AppliedDirectives = []\<rparr>],
      e_AppliedDirectives = []\<rparr>"

definition orderSchema :: "object gql_type go_map \<Rightarrow> object schema" where
  "orderSchema typeMap =
     \<lparr>s_queryType = Some (orderObject []), s_mutationType = None, s_subscriptionType = None,
      s_typeMap = typeMap, s_directives = [], s_appliedDirectives = []\<rparr>"

definition orderFieldsA :: "field_definition go_map" where
  "orderFieldsA = [(''b'', plainField ''b'' (Named ''Int'')), (''a'', plainField ''a'' (Named ''Int''))]"

definition orderFieldsB :: "field_definition go_map" where
  "orderFieldsB = [(''a'', plainField ''a'' (Named ''Int'')), (''b'', plainField ''b'' (Named ''Int''))]"

definition orderTypesA :: "object gql_type go_map" where
  "orderTypesA =
     [(''Query'', ObjectT (orderObject orderFieldsA)), (''Impl'', ObjectT implObject),
      (''Color'', EnumT orderEnum)]"

definition orderTypesMid :: "object gql_type go_map" where
  "orderTypesMid =
     [(''Query'', ObjectT (orderObject orderFieldsB)), (''Impl'', ObjectT implObject),
      (''Color'', EnumT orderEnum)]"

definition orderTypesB :: "object gql_type go_map" where
  "orderTypesB =
     [(''Color'', EnumT orderEnum), (''Impl'', ObjectT implObject),
      (''Query'', ObjectT (orderObject orderFieldsB))]"



section \<open>Order independence of the printer\<close>

subsection \<open>Sorting by names that are pairwise different\<close>

lemma print_all_sections: "print_all f xs = sections (map f xs)"
  by (induction xs) (auto split: sum.splits)

lemma map_insort_key:
  "map f (insort_key (\<lambda>a. k (f a)) x xs) = insort_key k (f x) (map f xs)"
  by (induction xs) auto

lemma map_sort_key_comp: "map f (sort_key (\<lambda>a. k (f a)) xs) = sort_key k (map f xs)"
  by (induction xs) (auto simp: map_insort_key)

lemma map_map_filter: "map f (List.map_filter h xs) = List.map_filter (\<lambda>x. map_option f (h x)) xs"
  by (induction xs) (auto split: option.splits)

lemma mset_map_filter:
  "mset xs = mset ys \<Longrightarrow> mset (List.map_filter h xs) = mset (List.map_filter h ys)"
  by (simp add: map_filter_def)

lemma sort_perm: "mset xs = mset ys \<Longrightarrow> sort xs = sort ys"
  by (rule sort_key_eq_sort_key) auto

lemma print_sorted_perm:
  fixes nm :: "'a \<Rightarrow> string" and pr :: "'a \<Rightarrow> panic + string"
  assumes perm: "mset (map (\<lambda>a. (nm a, pr a)) ys) = mset (map (\<lambda>a. (nm a, pr a)) xs)"
    and dist: "distinct (map nm xs)"
  shows "print_all pr (sort_key nm ys) = print_all pr (sort_key nm xs)"
proof -
  let ?g = "\<lambda>a. (nm a, pr a)"
  have pr: "map pr (sort_key nm zs) = map snd (sort_key fst (map ?g zs))" for zs
  proof -
    have "sort_key fst (map ?g zs) = map ?g (sort_key (\<lambda>a. fst (?g a)) zs)"
      by (rule map_sort_key_comp [symmetric])
    then show ?thesis by (simp add: comp_def)
  qed
  have nm: "mset (map nm ys) = mset (map nm xs)"
    using arg_cong [OF perm, of "image_mset fst"] by (simp add: multiset.map_comp comp_def)
  have "distinct (map nm ys)"
    using mset_eq_imp_distinct_iff [OF nm] dist by (rule iffD2)
  then have "distinct (map fst (map ?g ys))" by (simp add: comp_def)
  then have "inj_on fst (set (map ?g ys))" by (simp only: distinct_map)
  with perm have "sort_key fst (map ?g ys) = sort_key fst (map ?g xs)"
    by (rule sort_key_eq_sort_key)
  then show ?thesis by (simp add: print_all_sections pr)
qed

subsection \<open>Field maps and type maps visited in another order\<close>

lemma go_map_perm:
  assumes "wf_map m" and "mset m' = mset m"
  shows "map_of m' = map_of m" and "sort (map fst m') = sort (map fst m)"
proof -
  have "mset (map fst m') = mset (map fst m)" using assms(2) by simp
  then show "sort (map fst m') = sort (map fst m)" by (rule sort_perm)
  have "distinct (map fst m')"
    using mset_eq_imp_distinct_iff [OF \<open>mset (map fst m') = mset (map fst m)\<close>] assms(1)
    unfolding wf_map_def by (rule iffD2)
  moreover have "set m' = set m" using assms(2) by (rule mset_eq_setD)
  ultimately show "map_of m' = map_of m"
    using assms(1) by (simp add: wf_map_def map_of_inject_set)
qed

lemma printFieldDefinitions_perm:
  assumes "wf_map m" and "mset m' = mset m"
  shows "printFieldDefinitions m' = printFieldDefinitions m"
proof -
  have "printFieldDefinition m' = printFieldDefinition m"
    by (simp add: fun_eq_iff printFieldDefinition_def go_map_perm(1) [OF assms])
  then show ?thesis
    by (simp add: printFieldDefinitions_def go_map_perm(2) [OF assms])
qed

lemma printInputObjectFieldDefinitions_perm:
  assumes "wf_map m" and "mset m' = mset m"
  shows "printInputObjectFieldDefinitions m' = printInputObjectFieldDefinitions m"
proof -
  have "printInputObjectField m' = printInputObjectField m"
    by (simp add: fun_eq_iff printInputObjectField_def go_map_perm(1) [OF assms])
  then show ?thesis
    by (simp add: printInputObjectFieldDefinitions_def go_map_perm(2) [OF assms])
qed

lemma same_type_enum: "same_type t t' \<Longrightarrow> enumOf t' = enumOf t"
  by (cases t; cases t') auto

lemma same_type_union: "same_type t t' \<Longrightarrow> unionOf t' = unionOf t"
  by (cases t; cases t') auto

lemma same_type_scalar: "same_type t t' \<Longrightarrow> scalarOf t' = scalarOf t"
  by (cases t; cases t') auto

lemma same_type_inputObject:
  assumes "wf_type t" and "same_type t t'"
  shows "map_option (\<lambda>a. (io_Name a, printInputObjectDefinition a)) (inputObjectOf t')
       = map_option (\<lambda>a. (io_Name a, printInputObjectDefinition a)) (inputObjectOf t)"
proof (cases t; cases t')
  fix a b assume t: "t = InputObjectT a" "t' = InputObjectT b"
  with assms have wf: "wf_map (io_Fields a)" and perm: "mset (io_Fields b) = mset (io_Fields a)"
    and b: "b\<lparr>io_Fields := io_Fields a\<rparr> = a" by auto
  have n0: "io_Name b = io_Name a" using arg_cong [OF b, of io_Name] by simp
  have n1: "io_Description b = io_Description a" using arg_cong [OF b, of io_Description] by simp
  have n2: "io_AppliedDirectives b = io_AppliedDirectives a" using arg_cong [OF b, of io_AppliedDirectives] by simp
  from n0 n1 n2 show ?thesis
    using printInputObjectFieldDefinitions_perm [OF wf perm]
    by (simp add: t printInputObjectDefinition_def split: sum.splits)
qed (use assms in auto)

lemma same_type_interface:
  assumes "wf_type t" and "same_type t t'"
  shows "map_option (\<lambda>a. (i_Name a, printInterfaceDefinition a)) (interfaceOf t')
       = map_option (\<lambda>a. (i_Name a, printInterfaceDefinition a)) (interfaceOf t)"
proof (cases t; cases t')
  fix a b assume t: "t = InterfaceT a" "t' = InterfaceT b"
  with assms have wf: "wf_map (i_Fields a)" and perm: "mset (i_Fields b) = mset (i_Fields a)"
    and b: "b\<lparr>i_Fields := i_Fields a\<rparr> = a" by auto
  have n0: "i_Name b = i_Name a" using arg_cong [OF b, of i_Name] by simp
  have n1: "i_Description b = i_Description a" using arg_cong [OF b, of i_Description] by simp
  have n2: "i_AppliedDirectives b = i_AppliedDirectives a" using arg_cong [OF b, of i_AppliedDirectives] by simp
  from n0 n1 n2 show ?thesis
    using printFieldDefinitions_perm [OF wf perm]
    by (simp add: t printInterfaceDefinition_def split: sum.splits)
qed (use assms in auto)

lemma same_type_object:
  assumes "wf_type t" and "same_type t t'"
  shows "map_option (\<lambda>a. (o_Name a, printObjectDefinition a)) (objectOf t')
       = map_option (\<lambda>a. (o_Name a, printObjectDefinition a)) (objectOf t)"
proof (cases t; cases t')
  fix a b assume t: "t = ObjectT a" "t' = ObjectT b"
  with assms have wf: "wf_map (o_Fields a)" and perm: "mset (o_Fields b) = mset (o_Fields a)"
    and b: "b\<lparr>o_Fields := o_Fields a\<rparr> = a" by auto
  have n0: "o_Name b = o_Name a" using arg_cong [OF b, of o_Name] by simp
  have n1: "o_Description b = o_Description a" using arg_cong [OF b, of o_Description] by simp
  have n2: "o_AppliedDirectives b = o_AppliedDirectives a" using arg_cong [OF b, of o_AppliedDirectives] by simp
  have n3: "o_Interfaces b = o_Interfaces a" using arg_cong [OF b, of o_Interfaces] by simp
  from n0 n1 n2 n3 show ?thesis
    using printFieldDefinitions_perm [OF wf perm]
    by (simp add: t printObjectDefinition_def printImplements_def split: sum.splits)
qed (use assms in auto)

lemma names_typesOfKind:
  assumes key: "list_all wf_entry typeMap"
    and name: "\<And>t a. kind t = Some a \<Longrightarrow> nm a = type_Name t"
  shows "set (map nm (typesOfKind kind typeMap)) \<subseteq> set (map fst typeMap)"
  using key
proof (induction typeMap)
  case Nil
  then show ?case by (simp add: typesOfKind_def)
next
  case (Cons e typeMap)
  then show ?case
    by (cases e) (auto simp: typesOfKind_def wf_entry_def
        dest: name split: option.splits if_splits)
qed

lemma distinct_typesOfKind:
  assumes "wf_map typeMap" and "list_all wf_entry typeMap"
    and name: "\<And>t a. kind t = Some a \<Longrightarrow> nm a = type_Name t"
  shows "distinct (map nm (typesOfKind kind typeMap))"
  using assms(1,2)
proof (induction typeMap)
  case Nil
  then show ?case by (simp add: typesOfKind_def)
next
  case (Cons e typeMap)
  from Cons.prems have wf: "wf_map typeMap" "list_all wf_entry typeMap"
    and fresh: "fst e \<notin> set (map fst typeMap)" and e: "wf_entry e"
    by (auto simp: wf_map_def)
  have sub: "set (map nm (typesOfKind kind typeMap)) \<subseteq> set (map fst typeMap)"
    by (rule names_typesOfKind [OF wf(2) name])
  have tl: "distinct (map nm (typesOfKind kind typeMap))" by (rule Cons.IH [OF wf])
  show ?case
  proof (cases "if skipped (fst e) then None else kind (snd e)")
    case None
    then have "typesOfKind kind (e # typeMap) = typesOfKind kind typeMap"
      by (cases e) (auto simp: typesOfKind_def split: if_splits)
    with tl show ?thesis by simp
  next
    case (Some a)
    then have "kind (snd e) = Some a" by (simp split: if_splits)
    then have "nm a = fst e" using name e by (simp add: wf_entry_def)
    with fresh sub have "nm a \<notin> set (map nm (typesOfKind kind typeMap))" by auto
    moreover from Some have "typesOfKind kind (e # typeMap) = a # typesOfKind kind typeMap"
      by (cases e) (auto simp: typesOfKind_def split: if_splits)
    ultimately show ?thesis using tl by simp
  qed
qed

lemma summary_same_entries:
  assumes rel: "list_all2 same_entry typeMap mid"
    and wf: "list_all wf_entry typeMap"
    and resp: "\<And>t t'. wf_type t \<Longrightarrow> same_type t t' \<Longrightarrow>
                 map_option g (kind t') = map_option g (kind t)"
  shows "map g (typesOfKind kind mid) = map g (typesOfKind kind typeMap)"
  using rel wf
proof (induction rule: list_all2_induct)
  case Nil
  then show ?case by simp
next
  case (Cons x xs y ys)
  then have "map_option g (kind (snd y)) = map_option g (kind (snd x))" and "fst y = fst x"
    by (auto simp: same_entry_def wf_entry_def intro: resp)
  moreover have "map g (typesOfKind kind ys) = map g (typesOfKind kind xs)"
    using Cons by simp
  ultimately show ?case
    by (cases x; cases y) (auto simp: typesOfKind_def split: option.splits)
qed

lemma section_order_independent:
  fixes kind :: "object gql_type \<Rightarrow> 'a option" and nm :: "'a \<Rightarrow> string"
    and pr :: "'a \<Rightarrow> panic + string"
  assumes wf: "wf_map typeMap" "list_all wf_entry typeMap"
    and rel: "list_all2 same_entry typeMap mid"
    and perm: "mset typeMap' = mset mid"
    and name: "\<And>t a. kind t = Some a \<Longrightarrow> nm a = type_Name t"
    and resp: "\<And>t t'. wf_type t \<Longrightarrow> same_type t t' \<Longrightarrow>
                 map_option (\<lambda>a. (nm a, pr a)) (kind t') = map_option (\<lambda>a. (nm a, pr a)) (kind t)"
  shows "print_all pr (sort_key nm (typesOfKind kind typeMap'))
       = print_all pr (sort_key nm (typesOfKind kind typeMap))"
proof (rule print_sorted_perm)
  have "mset (typesOfKind kind typeMap') = mset (typesOfKind kind mid)"
    unfolding typesOfKind_def using perm by (rule mset_map_filter)
  then have "mset (map (\<lambda>a. (nm a, pr a)) (typesOfKind kind typeMap'))
           = mset (map (\<lambda>a. (nm a, pr a)) (typesOfKind kind mid))" by simp
  also have "map (\<lambda>a. (nm a, pr a)) (typesOfKind kind mid)
           = map (\<lambda>a. (nm a, pr a)) (typesOfKind kind typeMap)"
    by (rule summary_same_entries [OF rel wf(2) resp])
  finally show "mset (map (\<lambda>a. (nm a, pr a)) (typesOfKind kind typeMap'))
           = mset (map (\<lambda>a. (nm a, pr a)) (typesOfKind kind typeMap))" .
  show "distinct (map nm (typesOfKind kind typeMap))"
    by (rule distinct_typesOfKind [OF wf name])
qed

lemma name_of_kind:
  "enumOf t = Some e \<Longrightarrow> e_Name e = type_Name t"
  "inputObjectOf t = Some io \<Longrightarrow> io_Name io = type_Name t"
  "interfaceOf t = Some i \<Longrightarrow> i_Name i = type_Name t"
  "objectOf t = Some obj \<Longrightarrow> o_Name obj = type_Name t"
  "unionOf t = Some u \<Longrightarrow> u_Name u = type_Name t"
  "scalarOf t = Some sc \<Longrightarrow> sc_Name sc = type_Name t"
  by (cases t; simp)+

text \<open>
  Claim C1.  \<open>PrintSchema\<close> does not depend on the order in which the type map and the
  field maps are visited: for a schema whose type map is keyed by the names of its
  types, visiting the field maps of the types in another order (\<open>mid\<close>) and then the type
  map itself in another order (\<open>typeMap'\<close>) gives the same result, the same text or the
  same panic, for every value of the options.  Two calls on the same schema are the
  case where both orders are the ones of the first call.
\<close>

theorem PrintSchema_order_independent:
  assumes wf: "wf_schema schema"
    and fields: "list_all2 same_entry (s_typeMap schema) mid"
    and types: "mset typeMap' = mset mid"
  shows "PrintSchema (schema\<lparr>s_typeMap := typeMap'\<rparr>) options = PrintSchema schema options"
proof -
  from wf have w: "wf_map (s_typeMap schema)" "list_all wf_entry (s_typeMap schema)"
    by (simp_all add: wf_schema_def)
  note sec = section_order_independent [OF w fields types]
  have 1: "printEnumDefinitions (typesOfKind enumOf typeMap')
         = printEnumDefinitions (typesOfKind enumOf (s_typeMap schema))"
    unfolding printEnumDefinitions_def
    by (rule sec) (simp_all add: name_of_kind same_type_enum)
  have 2: "printInputObjectDefinitions (typesOfKind inputObjectOf typeMap')
         = printInputObjectDefinitions (typesOfKind inputObjectOf (s_typeMap schema))"
    unfolding printInputObjectDefinitions_def
    by (rule sec) (simp_all add: name_of_kind same_type_inputObject)
  have 3: "printInterfaceDefinitions (typesOfKind interfaceOf typeMap')
         = printInterfaceDefinitions (typesOfKind interfaceOf (s_typeMap schema))"
    unfolding printInterfaceDefinitions_def
    by (rule sec) (simp_all add: name_of_kind same_type_interface)
  have 4: "printObjectDefinitions (typesOfKind objectOf typeMap')
         = printObjectDefinitions (typesOfKind objectOf (s_typeMap schema))"
    unfolding printObjectDefinitions_def
    by (rule sec) (simp_all add: name_of_kind same_type_object)
  have 5: "printUnionDefinitions (typesOfKind unionOf typeMap')
         = printUnionDefinitions (typesOfKind unionOf (s_typeMap schema))"
    unfolding printUnionDefinitions_def
    by (rule sec) (simp_all add: name_of_kind same_type_union)
  have 6: "printCustomScalars (typesOfKind scalarOf typeMap')
         = printCustomScalars (typesOfKind scalarOf (s_typeMap schema))"
    unfolding printCustomScalars_def
    by (rule sec) (simp_all add: name_of_kind same_type_scalar)
  have sel: "s_queryType (schema\<lparr>s_typeMap := typeMap'\<rparr>) = s_queryType schema"
    "s_mutationType (schema\<lparr>s_typeMap := typeMap'\<rparr>) = s_mutationType schema"
    "s_subscriptionType (schema\<lparr>s_typeMap := typeMap'\<rparr>) = s_subscriptionType schema"
    "s_directives (schema\<lparr>s_typeMap := typeMap'\<rparr>) = s_directives schema"
    "s_appliedDirectives (schema\<lparr>s_typeMap := typeMap'\<rparr>) = s_appliedDirectives schema"
    "s_typeMap (schema\<lparr>s_typeMap := typeMap'\<rparr>) = typeMap'"
    by simp_all
  have 7: "printSchemaDefinition (schema\<lparr>s_typeMap := typeMap'\<rparr>) = printSchemaDefinition schema"
    unfolding printSchemaDefinition_def sel ..
  have 8: "isSchemaDefinitionNeeded (schema\<lparr>s_typeMap := typeMap'\<rparr>)
         = isSchemaDefinitionNeeded schema"
    unfolding isSchemaDefinitionNeeded_def sel ..
  show ?thesis
    unfolding PrintSchema_def sel 1 2 3 4 5 6 7 8 ..
qed

text \<open>
  A schema with three types: the field map of \<open>Query\<close> and the type map are each visited
  in two different orders.
\<close>

theorem PrintSchema_order_independent_witness:
  "wf_schema (orderSchema orderTypesA)
   \<and> list_all2 same_entry (s_typeMap (orderSchema orderTypesA)) orderTypesMid
   \<and> mset orderTypesB = mset orderTypesMid
   \<and> orderTypesB \<noteq> orderTypesA
   \<and> PrintSchema (orderSchema orderTypesB) noOptions = PrintSchema (orderSchema orderTypesA) noOptions"
proof -
  have a: "wf_schema (orderSchema orderTypesA)" by code_simp
  have b: "list_all2 same_entry (s_typeMap (orderSchema orderTypesA)) orderTypesMid"
    by code_simp
  have c: "mset orderTypesB = mset orderTypesMid" by code_simp
  have d: "orderTypesB \<noteq> orderTypesA" by code_simp
  have e: "(orderSchema orderTypesA)\<lparr>s_typeMap := orderTypesB\<rparr> = orderSchema orderTypesB"
    by (simp add: orderSchema_def)
  from PrintSchema_order_independent [OF a b c, of noOptions] a b c d e show ?thesis by simp
qed

section \<open>Applied directives in the printed text\<close>







text \<open>
  Claim C4.  The directive \<open>@link\<close> with the list of one import \<open>foo\<close> is printed with
  \<open>import: "foo"\<close>: the value of a list that prints to one element is written without
  brackets.  The brackets are written only when more than one element is printed.
\<close>

theorem single_element_list_not_bracketed:
  "printAppliedDirective (LinkAppliedDirective ''spec url'' [''foo''])
     = Inr (''@link(url: '' @ dq @ ''spec url'' @ dq @ '', import: '' @ dq @ ''foo'' @ dq @ '')'')"
  by code_simp

text \<open>
  What holds of the rendering of the values: a string is quoted, a boolean and an integer
  are written bare, and a list that prints to two or more elements is written in
  brackets, nested lists in one bracket.
\<close>

lemma key_round_trip:
  "printAppliedDirective (KeyAppliedDirective ''id'' True)
     = Inr (''@key(fields: '' @ dq @ ''id'' @ dq @ '', resolvable: true)'')"
  by code_simp

lemma nested_lists_in_one_bracket:
  "printAppliedDirectiveArgument
     \<lparr>ada_Name = ''import'',
      ada_Value = VList [VList [VString ''a'', VInt 7], VList [VBool False]]\<rparr>
     = Inr (''import: ['' @ dq @ ''a'' @ dq @ '', 7, false]'')"
  by code_simp

lemma empty_list_argument_panics:
  "printAppliedDirectiveArgument \<lparr>ada_Name = name, ada_Value = VList []\<rparr> = Inl IndexOutOfRange"
  by (simp add: printAppliedDirectiveArgument_def)

text \<open>
  Claim C3.  \<open>PrintSchema\<close> panics on a schema whose schema block carries a \<open>@link\<close> with
  an empty list of imports: the printer reads the first printed element of the value,
  and there is none.  The value nil panics as well, when its type is inspected.
\<close>

theorem PrintSchema_panics_on_empty_list:
  "PrintSchema emptyImportSchema DefaultPrinterOptions = Inl IndexOutOfRange
   \<and> printAppliedDirectiveArgument \<lparr>ada_Name = ''import'', ada_Value = VNil\<rparr>
       = Inl NilPointerDereference"
  by code_simp

section \<open>The composer\<close>

subsection \<open>What each step of the composer does\<close>

lemma AddFieldConfig_Inr:
  assumes "AddFieldConfig h r name field = Inr h'"
  shows "r < length h"
    and "h' = h[r := (h ! r)\<lparr>o_Fields := AList.update name field (o_Fields (h ! r))\<rparr>]"
  using assms by (auto simp: AddFieldConfig_def deref_def split: if_splits)

lemma deref_AddFieldConfig_other:
  assumes "AddFieldConfig h r name field = Inr h'" and "r' \<noteq> r"
  shows "deref h' r' = deref h r'"
  using AddFieldConfig_Inr [OF assms(1)] assms(2) by (simp add: deref_def)

lemma deref_AddFieldConfig_same:
  assumes "AddFieldConfig h r name field = Inr h'"
  shows "deref h' r = Some ((h ! r)\<lparr>o_Fields := AList.update name field (o_Fields (h ! r))\<rparr>)"
  using AddFieldConfig_Inr [OF assms(1)] by (simp add: deref_def)

lemma length_AddFieldConfig:
  assumes "AddFieldConfig h r name field = Inr h'"
  shows "length h' = length h"
  using AddFieldConfig_Inr [OF assms(1)] by simp

lemma ensureQuery_supplied:
  assumes "ensureQuery h config = Inr (h1, config1)" and "c_Query config = Some query"
  shows "config1 = config" and "AddFieldConfig h query ''_service'' (serviceField NoResolve) = Inr h1"
  using assms by (auto simp: ensureQuery_def split: sum.splits)

lemma ensureQuery_query:
  assumes "ensureQuery h config = Inr (h1, config1)"
  shows "\<exists>query. c_Query config1 = Some query \<and> query < length h1"
proof (cases "c_Query config")
  case None
  with assms show ?thesis by (auto simp: ensureQuery_def NewObject_def)
next
  case (Some query)
  from ensureQuery_supplied [OF assms Some] AddFieldConfig_Inr(1) length_AddFieldConfig
  show ?thesis using Some by metis
qed


lemma addEntityUnion_Inr:
  assumes "addEntityUnion h resolveType schema = Inr (h2, schema2)"
  shows "s_queryType schema2 = s_queryType schema"
    and "\<exists>found. findEntityTypes h schema = Inr found
           \<and> (found = [] \<longrightarrow> h2 = h @ [ExtendHelper]
                 \<and> entityMembers schema2 = Some [length h])
           \<and> (found \<noteq> [] \<longrightarrow> h2 = h \<and> entityMembers schema2 = Some found)"
  using assms
  by (auto simp: addEntityUnion_def NewObject_def entityMembers_def entityUnion_def
      update_conv' split: sum.splits if_splits)

lemma addEntityUnion_typeMap:
  assumes "addEntityUnion h resolveType schema = Inr (h2, schema2)"
  shows "\<exists>entities. map_of (s_typeMap schema2) ''_Entity''
            = Some (UnionT (entityUnion resolveType entities))
          \<and> entityMembers schema2 = Some entities"
  using assms
  by (auto simp: addEntityUnion_def NewObject_def entityMembers_def entityUnion_def
      update_conv' split: sum.splits if_splits)

lemma addFederatedFields_Inr:
  assumes "addFederatedFields h resolve schema = Inr h3"
  shows "\<exists>query h' sdl. s_queryType schema = Some query
           \<and> AddFieldConfig h query ''_entities'' (entitiesField resolve) = Inr h'
           \<and> AddFieldConfig h' query ''_service'' (serviceField (ServiceResolve sdl)) = Inr h3"
  using assms by (auto simp: addFederatedFields_def split: option.splits sum.splits)

lemma NewFederatedSchema_Inr:
  assumes "NewFederatedSchema newSchema h config = Inr (h', schema, err)"
  shows "\<exists>h1 config1 built h2.
           ensureQuery h (augmentConfig (fc_SchemaConfig config)) = Inr (h1, config1)
         \<and> newSchema h1 config1 = (built, None)
         \<and> addEntityUnion h1 (EntityTypeResolver config) built = Inr (h2, schema)
         \<and> addFederatedFields h2 (EntitiesFieldResolver config) schema = Inr h'"
  using assms
  by (auto simp: NewFederatedSchema_def Let_def split: sum.splits prod.splits option.splits)


lemma NewSchema_keeps_query:
  "snd (NewSchema h config) = None \<longrightarrow> s_queryType (fst (NewSchema h config)) = c_Query config"
  by (auto simp: NewSchema_def split: option.splits if_splits sum.splits)

lemma Inr_cases:
  assumes "\<not> isl r"
  obtains h' schema err where "r = Inr (h', schema, err)"
  using assms by (cases r) auto

lemma ensureQuery_emptyConfig:
  "ensureQuery initial_store (augmentConfig (fc_SchemaConfig (federated emptyConfig)))
     = Inr (initial_store @ [newQuery], (augmentConfig emptyConfig)\<lparr>c_Query := Some 1\<rparr>)"
  by (simp add: ensureQuery_def augmentConfig_def federated_def emptyConfig_def NewObject_def
      initial_store_def)

subsection \<open>The link of the schema block\<close>




subsection \<open>The union of the entities\<close>

text \<open>
  The composer's test \<open>isEntity\<close> decides what the specification calls an entity, and
  the scan \<open>findEntityTypes\<close>, when it returns, returns the entities of the type map.
\<close>

lemma isEntity_entityObject: "isEntity obj = entityObject obj"
proof -
  have named: "list_ex (\<lambda>directive. ad_Name directive = name) ads
          \<longleftrightarrow> name \<in> set (map ad_Name ads)" for ads name
    by (induction ads) auto
  show ?thesis
    unfolding isEntity_def entityObject_def named by simp
qed

lemma findEntityTypesLoop_entityObjects:
  "findEntityTypesLoop h typeMap = Inr found \<Longrightarrow> found = entityObjects h typeMap"
proof (induction h typeMap arbitrary: found rule: findEntityTypesLoop.induct)
  case (1 h)
  then show ?case by (simp add: entityObjects_def)
next
  case (2 h name r rest)
  from "2.prems" obtain obj entities where
    obj: "deref h r = Some obj"
    and rest: "findEntityTypesLoop h rest = Inr entities"
    and found: "found = (if isEntity obj then r # entities else entities)"
    by (auto split: option.splits sum.splits)
  from "2.IH" [OF obj rest] have "entities = entityObjects h rest" .
  with obj found show ?case
    by (simp add: entityObjects_def isEntity_entityObject)
qed (auto simp: entityObjects_def)

text \<open>
  Claim C2.  When the composer returns, the type map of its schema has, under \<open>_Entity\<close>,
  a union that is not empty.  When the built schema contains no object type that is
  not an \<open>extend\<close> stub and carries an applied directive \<open>key\<close>, the union has exactly
  one member: the placeholder \<open>_ExtendHelper\<close>, allocated by the composer, whose only
  field \<open>id\<close> carries the applied directive \<open>@external\<close>.  When the schema does contain
  such object types, they are the members of the union.  The build is any function
  that keeps the pointer of the query type.
\<close>

theorem entity_union_never_empty:
  assumes run: "NewFederatedSchema newSchema h config = Inr (h', schema, err)"
    and prep: "ensureQuery h (augmentConfig (fc_SchemaConfig config)) = Inr (h1, config1)"
    and keeps: "\<forall>h1 config1. snd (newSchema h1 config1) = None \<longrightarrow>
                  s_queryType (fst (newSchema h1 config1)) = c_Query config1"
  shows "\<exists>members. entityMembers schema = Some members \<and> members \<noteq> []
           \<and> (entityObjects h1 (s_typeMap (fst (newSchema h1 config1))) = [] \<longrightarrow>
                members = [length h1] \<and> deref h' (length h1) = Some ExtendHelper
                \<and> map (\<lambda>(name, field). (name, f_AppliedDirectives field)) (o_Fields ExtendHelper)
                    = [(''id'', [ExternalAppliedDirective])])
           \<and> (entityObjects h1 (s_typeMap (fst (newSchema h1 config1))) \<noteq> [] \<longrightarrow>
                members = entityObjects h1 (s_typeMap (fst (newSchema h1 config1))))"
proof -
  from NewFederatedSchema_Inr [OF run] prep obtain built h2 where
    built: "newSchema h1 config1 = (built, None)"
    and union: "addEntityUnion h1 (EntityTypeResolver config) built = Inr (h2, schema)"
    and fields: "addFederatedFields h2 (EntitiesFieldResolver config) schema = Inr h'"
    by auto
  from ensureQuery_query [OF prep] obtain query where
    query: "c_Query config1 = Some query" "query < length h1" by auto
  from addEntityUnion_Inr [OF union] obtain found where
    q2: "s_queryType schema = s_queryType built"
    and found: "findEntityTypes h1 built = Inr found"
    and none: "found = [] \<Longrightarrow> h2 = h1 @ [ExtendHelper] \<and> entityMembers schema = Some [length h1]"
    and some: "found \<noteq> [] \<Longrightarrow> h2 = h1 \<and> entityMembers schema = Some found"
    by auto
  from found have spec: "found = entityObjects h1 (s_typeMap built)"
    unfolding findEntityTypes_def by (rule findEntityTypesLoop_entityObjects)
  from addFederatedFields_Inr [OF fields] obtain q h'' sdl where
    q: "s_queryType schema = Some q"
    and a1: "AddFieldConfig h2 q ''_entities'' (entitiesField (EntitiesFieldResolver config)) = Inr h''"
    and a2: "AddFieldConfig h'' q ''_service'' (serviceField (ServiceResolve sdl)) = Inr h'"
    by auto
  from keeps built have "s_queryType built = c_Query config1"
    by (metis fst_conv snd_conv)
  with q q2 query have qq: "q = query" by simp
  have nonempty: "\<exists>members. entityMembers schema = Some members \<and> members \<noteq> []"
    using none some by (cases "found = []") auto
  have placeholder: "deref h' (length h1) = Some ExtendHelper" if "found = []"
  proof -
    from none [OF that] have h2: "h2 = h1 @ [ExtendHelper]" by simp
    have ne: "length h1 \<noteq> q" using qq query by simp
    have "deref h' (length h1) = deref h'' (length h1)"
      by (rule deref_AddFieldConfig_other [OF a2 ne])
    also have "\<dots> = deref h2 (length h1)"
      by (rule deref_AddFieldConfig_other [OF a1 ne])
    also have "\<dots> = Some ExtendHelper" by (simp add: h2 deref_def)
    finally show ?thesis .
  qed
  have ext: "map (\<lambda>(name, field). (name, f_AppliedDirectives field)) (o_Fields ExtendHelper)
                    = [(''id'', [ExternalAppliedDirective])]"
    by (simp add: ExtendHelper_def)
  have tm: "s_typeMap (fst (newSchema h1 config1)) = s_typeMap built" using built by simp
  show ?thesis
    unfolding tm using nonempty none some placeholder ext spec by auto
qed

text \<open>
  The configuration with no types at all: the built schema has the object types
  \<open>Query\<close> and \<open>_Service\<close>, neither with a key; the composer makes the query type at
  address 1 and the placeholder at address 2.
\<close>

theorem entity_union_never_empty_witness:
  "\<not> isl (NewFederatedSchema NewSchema initial_store (federated emptyConfig))
   \<and> entityObjects (initial_store @ [newQuery])
        (s_typeMap (fst (NewSchema (initial_store @ [newQuery])
           ((augmentConfig emptyConfig)\<lparr>c_Query := Some 1\<rparr>)))) = []
   \<and> entityMembers (fst (snd (projr
        (NewFederatedSchema NewSchema initial_store (federated emptyConfig))))) = Some [2]
   \<and> deref (fst (projr (NewFederatedSchema NewSchema initial_store (federated emptyConfig)))) 2
       = Some ExtendHelper"
proof -
  have r: "\<not> isl (NewFederatedSchema NewSchema initial_store (federated emptyConfig))"
    by code_simp
  then obtain h' schema err where
    run: "NewFederatedSchema NewSchema initial_store (federated emptyConfig) = Inr (h', schema, err)"
    by (rule Inr_cases)
  have none: "entityObjects (initial_store @ [newQuery])
        (s_typeMap (fst (NewSchema (initial_store @ [newQuery])
           ((augmentConfig emptyConfig)\<lparr>c_Query := Some 1\<rparr>)))) = []"
    by code_simp
  have keeps: "\<forall>h1 config1. snd (NewSchema h1 config1) = None \<longrightarrow>
                  s_queryType (fst (NewSchema h1 config1)) = c_Query config1"
    using NewSchema_keeps_query by blast
  have len: "length (initial_store @ [newQuery]) = 2" by (simp add: initial_store_def)
  from entity_union_never_empty [OF run ensureQuery_emptyConfig keeps] none
  have "entityMembers schema = Some [length (initial_store @ [newQuery])]
        \<and> deref h' (length (initial_store @ [newQuery])) = Some ExtendHelper"
    by auto
  then have "entityMembers schema = Some [2] \<and> deref h' 2 = Some ExtendHelper"
    unfolding len .
  with r run none show ?thesis by simp
qed

text \<open>
  The type \<open>Product\<close> with its key is the member of the union; marked as an \<open>extend\<close>
  stub it is not an entity, and the member is the placeholder.
\<close>

lemma entity_union_of_product:
  "entityMembers (fst (snd (projr
      (NewFederatedSchema NewSchema productStore (federated productConfig))))) = Some [1]
   \<and> entityMembers (fst (snd (projr
      (NewFederatedSchema NewSchema extendStore (federated productConfig))))) = Some [3]
   \<and> deref (fst (projr (NewFederatedSchema NewSchema extendStore (federated productConfig)))) 3
       = Some ExtendHelper"
  by code_simp

subsection \<open>The query type of the caller\<close>

text \<open>
  The caller's query type has a field \<open>_service\<close> of the type \<open>String\<close>.  After the
  composer has run, the field stored under that name in the same object has the type
  \<open>_Service\<close>: a field of the caller was replaced.
\<close>

theorem preexisting_service_field_counterexample:
  "map_option f_Type (fieldAt callerStore 1 ''_service'') = Some (Named ''String'')
   \<and> c_Query (fc_SchemaConfig (federated callerConfig)) = Some 1
   \<and> \<not> isl (NewFederatedSchema NewSchema callerStore (federated callerConfig))
   \<and> map_option f_Type
        (fieldAt (fst (projr (NewFederatedSchema NewSchema callerStore (federated callerConfig))))
           1 ''_service'') = Some (Named ''_Service'')"
  by code_simp

text \<open>
  Claim C9, as amended.  When the caller supplies a query type and the composer returns,
  the query type of the schema is the caller's object (the same address); in the store,
  that object differs from what it was in its field map only; the field map has the
  fields \<open>_service\<close> (with the resolver that serves the SDL) and \<open>_entities\<close>, and under
  every other name the field it had before; every other object of the store is as it
  was.  The build is any function that keeps the pointer of the query type; it reads
  the store and does not change it.
\<close>

theorem query_object_mutated_in_place:
  assumes run: "NewFederatedSchema newSchema h config = Inr (h', schema, err)"
    and supplied: "c_Query (fc_SchemaConfig config) = Some query"
    and keeps: "\<forall>h1 config1. snd (newSchema h1 config1) = None \<longrightarrow>
                  s_queryType (fst (newSchema h1 config1)) = c_Query config1"
  shows "s_queryType schema = Some query
     \<and> (\<exists>obj obj'. deref h query = Some obj \<and> deref h' query = Some obj'
          \<and> obj'\<lparr>o_Fields := o_Fields obj\<rparr> = obj)
     \<and> (\<exists>sdl. fieldAt h' query ''_service'' = Some (serviceField (ServiceResolve sdl)))
     \<and> fieldAt h' query ''_entities'' = Some (entitiesField (EntitiesFieldResolver config))
     \<and> (\<forall>name. name \<noteq> ''_service'' \<and> name \<noteq> ''_entities'' \<longrightarrow>
           fieldAt h' query name = fieldAt h query name)
     \<and> (\<forall>r<length h. r \<noteq> query \<longrightarrow> deref h' r = deref h r)"
proof -
  from NewFederatedSchema_Inr [OF run] obtain h1 config1 built h2 where
    prep: "ensureQuery h (augmentConfig (fc_SchemaConfig config)) = Inr (h1, config1)"
    and built: "newSchema h1 config1 = (built, None)"
    and union: "addEntityUnion h1 (EntityTypeResolver config) built = Inr (h2, schema)"
    and fields: "addFederatedFields h2 (EntitiesFieldResolver config) schema = Inr h'"
    by auto
  have sup: "c_Query (augmentConfig (fc_SchemaConfig config)) = Some query"
    using supplied by (simp add: augmentConfig_def)
  from ensureQuery_supplied [OF prep sup] have
    c1: "config1 = augmentConfig (fc_SchemaConfig config)"
    and a0: "AddFieldConfig h query ''_service'' (serviceField NoResolve) = Inr h1"
    by auto
  from AddFieldConfig_Inr [OF a0] have lt: "query < length h" by simp
  have len1: "length h1 = length h" by (rule length_AddFieldConfig [OF a0])
  from addEntityUnion_Inr [OF union] obtain found where
    q2: "s_queryType schema = s_queryType built"
    and found: "findEntityTypes h1 built = Inr found"
    and none: "found = [] \<Longrightarrow> h2 = h1 @ [ExtendHelper]"
    and some: "found \<noteq> [] \<Longrightarrow> h2 = h1"
    by auto
  have h2: "\<forall>r<length h. deref h2 r = deref h1 r"
    using none some len1 by (cases "found = []") (auto simp: deref_def nth_append)
  from keeps built have "s_queryType built = c_Query config1" by (metis fst_conv snd_conv)
  with q2 c1 sup have root: "s_queryType schema = Some query" by simp
  from addFederatedFields_Inr [OF fields] root obtain h'' sdl where
    a1: "AddFieldConfig h2 query ''_entities'' (entitiesField (EntitiesFieldResolver config)) = Inr h''"
    and a2: "AddFieldConfig h'' query ''_service'' (serviceField (ServiceResolve sdl)) = Inr h'"
    by auto
  define obj where "obj = h ! query"
  define obj1 where
    "obj1 = obj\<lparr>o_Fields := AList.update ''_service'' (serviceField NoResolve) (o_Fields obj)\<rparr>"
  define obj2 where
    "obj2 = obj1\<lparr>o_Fields := AList.update ''_entities''
               (entitiesField (EntitiesFieldResolver config)) (o_Fields obj1)\<rparr>"
  define obj' where
    "obj' = obj2\<lparr>o_Fields := AList.update ''_service''
               (serviceField (ServiceResolve sdl)) (o_Fields obj2)\<rparr>"
  have d0: "deref h query = Some obj" using lt by (simp add: deref_def obj_def)
  have d1: "deref h1 query = Some obj1"
    using deref_AddFieldConfig_same [OF a0] by (simp add: obj_def obj1_def)
  have d2: "deref h2 query = Some obj1" using h2 lt d1 by simp
  have n2: "h2 ! query = obj1"
    using d2 by (simp add: deref_def split: if_splits)
  have d3: "deref h'' query = Some obj2"
    using deref_AddFieldConfig_same [OF a1] by (simp add: n2 obj2_def)
  have n3: "h'' ! query = obj2"
    using d3 by (simp add: deref_def split: if_splits)
  have d4: "deref h' query = Some obj'"
    using deref_AddFieldConfig_same [OF a2] by (simp add: n3 obj'_def)
  have same: "obj'\<lparr>o_Fields := o_Fields obj\<rparr> = obj"
    by (simp add: obj'_def obj2_def obj1_def)
  have f1: "fieldAt h' query ''_service'' = Some (serviceField (ServiceResolve sdl))"
    by (simp add: fieldAt_def d4 obj'_def update_conv')
  have f2: "fieldAt h' query ''_entities'' = Some (entitiesField (EntitiesFieldResolver config))"
    by (simp add: fieldAt_def d4 obj'_def obj2_def update_conv')
  have f3: "\<forall>name. name \<noteq> ''_service'' \<and> name \<noteq> ''_entities'' \<longrightarrow>
                fieldAt h' query name = fieldAt h query name"
    by (simp add: fieldAt_def d4 d0 obj'_def obj2_def obj1_def update_conv')
  have frame: "\<forall>r<length h. r \<noteq> query \<longrightarrow> deref h' r = deref h r"
  proof (intro allI impI)
    fix r assume r: "r < length h" "r \<noteq> query"
    have "deref h' r = deref h'' r" by (rule deref_AddFieldConfig_other [OF a2 r(2)])
    also have "\<dots> = deref h2 r" by (rule deref_AddFieldConfig_other [OF a1 r(2)])
    also have "\<dots> = deref h1 r" using h2 r(1) by simp
    also have "\<dots> = deref h r" by (rule deref_AddFieldConfig_other [OF a0 r(2)])
    finally show "deref h' r = deref h r" .
  qed
  show ?thesis using root d0 d4 same f1 f2 f3 frame by blast
qed

text \<open>
  The caller's query type at address 1, with the fields \<open>_service\<close> and \<open>hello\<close>: the
  field \<open>hello\<close> and the object at address 0 are as they were.
\<close>

theorem query_object_mutated_in_place_witness:
  "c_Query (fc_SchemaConfig (federated callerConfig)) = Some 1
   \<and> \<not> isl (NewFederatedSchema NewSchema callerStore (federated callerConfig))
   \<and> s_queryType (fst (snd (projr
        (NewFederatedSchema NewSchema callerStore (federated callerConfig))))) = Some 1
   \<and> fieldAt (fst (projr (NewFederatedSchema NewSchema callerStore (federated callerConfig))))
        1 ''hello'' = fieldAt callerStore 1 ''hello''
   \<and> deref (fst (projr (NewFederatedSchema NewSchema callerStore (federated callerConfig)))) 0
       = deref callerStore 0"
proof -
  have s: "c_Query (fc_SchemaConfig (federated callerConfig)) = Some 1" by code_simp
  have r: "\<not> isl (NewFederatedSchema NewSchema callerStore (federated callerConfig))"
    by code_simp
  then obtain h' schema err where
    run: "NewFederatedSchema NewSchema callerStore (federated callerConfig) = Inr (h', schema, err)"
    by (rule Inr_cases)
  have keeps: "\<forall>h1 config1. snd (NewSchema h1 config1) = None \<longrightarrow>
                  s_queryType (fst (NewSchema h1 config1)) = c_Query config1"
    using NewSchema_keeps_query by blast
  have len: "0 < length callerStore" by (simp add: callerStore_def)
  from query_object_mutated_in_place [OF run s keeps] len
  have "s_queryType schema = Some 1 \<and> fieldAt h' 1 ''hello'' = fieldAt callerStore 1 ''hello''
        \<and> deref h' 0 = deref callerStore 0"
    by simp
  with s r run show ?thesis by simp
qed

subsection \<open>Errors and panics\<close>

text \<open>
  Claim C10.  When the composer returns, the error that it returns is nil: an error of
  the build has been turned into a panic before.
\<close>

theorem error_result_is_nil:
  assumes "NewFederatedSchema newSchema h config = Inr (h', schema, err)"
  shows "err = None"
  using assms
  by (auto simp: NewFederatedSchema_def Let_def split: sum.splits prod.splits option.splits)

text \<open>The configuration with no types at all: the composer returns, and the error is nil.\<close>

theorem error_result_is_nil_witness:
  "\<not> isl (NewFederatedSchema NewSchema initial_store (federated emptyConfig))
   \<and> snd (snd (projr (NewFederatedSchema NewSchema initial_store (federated emptyConfig))))
       = None"
proof -
  have r: "\<not> isl (NewFederatedSchema NewSchema initial_store (federated emptyConfig))"
    by code_simp
  then obtain h' schema err where
    run: "NewFederatedSchema NewSchema initial_store (federated emptyConfig) = Inr (h', schema, err)"
    by (rule Inr_cases)
  from error_result_is_nil [OF run] r run show ?thesis by simp
qed

text \<open>A build that returns an error makes the composer panic with the text of the error.\<close>

lemma build_failure_is_fatal:
  assumes "ensureQuery h (augmentConfig (fc_SchemaConfig config)) = Inr (h1, config1)"
    and "snd (newSchema h1 config1) = Some msg"
  shows "NewFederatedSchema newSchema h config
           = Inl (FailureToCreateSchema (''failure to create schema'' @ msg))"
  using assms by (auto simp: NewFederatedSchema_def Let_def split: prod.splits option.splits)

text \<open>
  Claim C8.  The build of the configuration whose schema block carries a \<open>@link\<close> with
  an empty list of imports succeeds (its error is nil), and the composer panics all the
  same: the panic comes from the printer, which the composer calls on the composed
  schema.  A failing build is not the only way in which the composition fails.
\<close>

theorem composer_panics_in_printer:
  "snd (NewSchema (initial_store @ [newQuery])
          ((augmentConfig emptyImportConfig)\<lparr>c_Query := Some 1\<rparr>)) = None
   \<and> ensureQuery initial_store (augmentConfig (fc_SchemaConfig (federated emptyImportConfig)))
       = Inr (initial_store @ [newQuery], (augmentConfig emptyImportConfig)\<lparr>c_Query := Some 1\<rparr>)
   \<and> NewFederatedSchema NewSchema initial_store (federated emptyImportConfig)
       = Inl IndexOutOfRange"
  by code_simp

end
